theory Spec2Isabelle
  imports Complex_Main "HOL-Library.Word" "HOL-Library.Log_Nat"
begin

unbundle bit_operations_syntax

section \<open>Error codes and enumerations\<close>

text \<open>
  The values of \<open>err_t\<close> that \<open>Adafruit_SI5351.cpp\<close> returns, and the PLL selector
  \<open>si5351PLL_t\<close>. The other enumerations of the driver reach the code only through their
  integer value (\<open>si5351RDiv_t\<close> is assigned to a \<open>uint8_t\<close>, \<open>si5351MultisynthDiv_t\<close>
  is passed as a \<open>uint32_t\<close>, the crystal load is written as a byte), so they are
  modelled by that value.
\<close>

datatype err_t =
    ERROR_NONE
  | ERROR_DEVICENOTINITIALISED
  | ERROR_INVALIDPARAMETER
  | ERROR_I2C_DEVICENOTFOUND
  | ERROR_I2C_TRANSACTION

datatype si5351PLL_t = SI5351_PLL_A | SI5351_PLL_B

section \<open>The two-wire bus\<close>

text \<open>
  Modelled from the spec: the register-access capability (\<open>Adafruit_I2CDevice\<close>) is an
  external collaborator whose operations return a transport-level boolean. A device is
  a script of answers, indexed by the number of the transaction, and the log of the
  transactions issued so far:
  \<^item> \<open>ack n\<close>: whether transaction number \<open>n\<close> succeeds;
  \<^item> \<open>rx n\<close>: the byte found in the caller's one-byte buffer after transaction number
    \<open>n\<close>. For an acknowledged read this is the byte read; after a failed read the bus has
    not written the buffer, which then holds whatever it held before;
  \<^item> \<open>sent\<close>: the transactions issued, oldest first.
\<close>

datatype i2c_txn = Probe | Write "8 word list" | WriteThenRead "8 word"

record Adafruit_I2CDevice =
  ack :: "nat \<Rightarrow> bool"
  rx :: "nat \<Rightarrow> 8 word"
  sent :: "i2c_txn list"

definition i2c_begin :: "Adafruit_I2CDevice \<Rightarrow> bool \<times> Adafruit_I2CDevice" where
  "i2c_begin d = (ack d (length (sent d)), d\<lparr>sent := sent d @ [Probe]\<rparr>)"

definition i2c_write :: "8 word list \<Rightarrow> Adafruit_I2CDevice \<Rightarrow> bool \<times> Adafruit_I2CDevice" where
  "i2c_write buf d = (ack d (length (sent d)), d\<lparr>sent := sent d @ [Write buf]\<rparr>)"

definition i2c_write_then_read ::
  "8 word \<Rightarrow> Adafruit_I2CDevice \<Rightarrow> (bool \<times> 8 word) \<times> Adafruit_I2CDevice" where
  "i2c_write_then_read reg d =
     ((ack d (length (sent d)), rx d (length (sent d))), d\<lparr>sent := sent d @ [WriteThenRead reg]\<rparr>)"

section \<open>Single and double precision arithmetic\<close>

text \<open>
  \<open>setupPLL\<close> and \<open>setupMultisynth\<close> compute in \<open>float\<close>. A floating-point value is
  the rational number it denotes; \<open>fl p x\<close> rounds \<open>x\<close> to the nearest number with a
  significand of \<open>p\<close> bits, ties to the even significand (the IEEE 754 default).
  Each operation rounds its result to the type of the operation. The exponent range is
  not modelled: every non-zero value the driver computes has a magnitude between
  \<open>2^-20\<close> and \<open>2^53\<close>, far inside the range of binary32.
\<close>

definition rne :: "rat \<Rightarrow> int" where
  "rne y = (let f = \<lfloor>y\<rfloor>; d = y - of_int f in
     if d < 1 / 2 then f else if 1 / 2 < d then f + 1 else if even f then f else f + 1)"

text \<open>For \<open>x > 0\<close>, \<open>ilog2 x\<close> is the exponent \<open>e\<close> with \<open>2^e \<le> x < 2^(e+1)\<close>.\<close>

definition ilog2 :: "rat \<Rightarrow> int" where
  "ilog2 x = (case quotient_of x of (a, b) \<Rightarrow>
     let l = bitlen a - bitlen b in if x < 2 powi l then l - 1 else l)"

definition fl :: "nat \<Rightarrow> rat \<Rightarrow> rat" where
  "fl p x = (if x = 0 then 0 else
     let e = ilog2 \<bar>x\<bar> - (int p - 1) in of_int (rne (x / 2 powi e)) * 2 powi e)"

text \<open>\<open>float\<close> is binary32: 24 bits of significand.\<close>

definition f32 :: "rat \<Rightarrow> rat" where
  "f32 x = fl 24 x"

text \<open>
  What C++ leaves open is a parameter of the model:
  \<^item> \<open>floor_prec\<close>: the significand width of the type in which \<open>floor\<close> returns and in which
    the arithmetic on its result is done. It is 24 where that type is binary32 (the
    \<open>float\<close> overload of \<open>floor\<close>, or a 32-bit \<open>double\<close> as on AVR) and 53 where
    \<open>floor\<close> is \<open>double floor(double)\<close> on binary64;
  \<^item> \<open>conv_oor\<close>: the result of converting to \<open>uint32_t\<close> a floating-point value whose
    integral part is not in \<open>[0, 2^32)\<close>. C++ leaves this conversion undefined; the
    model takes whatever the platform returns.
\<close>

record platform =
  floor_prec :: nat
  conv_oor :: "int \<Rightarrow> 32 word"

definition fD :: "platform \<Rightarrow> rat \<Rightarrow> rat" where
  "fD pf x = fl (floor_prec pf) x"

definition trunc :: "rat \<Rightarrow> int" where
  "trunc x = (if 0 \<le> x then \<lfloor>x\<rfloor> else \<lceil>x\<rceil>)"

definition to_uint32 :: "platform \<Rightarrow> rat \<Rightarrow> 32 word" where
  "to_uint32 pf x =
     (let t = trunc x in if 0 \<le> t \<and> t < 2 ^ 32 then word_of_int t else conv_oor pf t)"

text \<open>The sub-expression \<open>(float)num / (float)denom\<close>.\<close>

definition fdiv :: "32 word \<Rightarrow> 32 word \<Rightarrow> rat" where
  "fdiv num denom = f32 (f32 (of_nat (unat num)) / f32 (of_nat (unat denom)))"

text \<open>The sub-expression \<open>floor(128 * ((float)num / (float)denom))\<close>.\<close>

definition floor128 :: "32 word \<Rightarrow> 32 word \<Rightarrow> int" where
  "floor128 num denom = \<lfloor>f32 (128 * fdiv num denom)\<rfloor>"

section \<open>The driver's state\<close>

record si5351Config_t =
  initialised :: bool
  crystalFreq :: "32 word"
  crystalLoad :: "8 word"
  crystalPPM :: "32 word"
  plla_configured :: bool
  plla_freq :: "32 word"
  pllb_configured :: bool
  pllb_freq :: "32 word"

text \<open>
  The object: its configuration, the array \<open>lastRdivValue[3]\<close> (read and written only at
  an index that has passed the check \<open>output < 3\<close>) and the bus handle. The handle is
  created by \<open>begin\<close>; the model is of an object on which \<open>begin\<close> has been called.
\<close>

record Adafruit_SI5351 =
  m_si5351Config :: si5351Config_t
  lastRdivValue :: "nat \<Rightarrow> 8 word"
  i2c_dev :: Adafruit_I2CDevice

type_synonym 'a op = "Adafruit_SI5351 \<Rightarrow> 'a \<times> Adafruit_SI5351"

text \<open>
  Modelled from the spec: the header \<open>Adafruit_SI5351.h\<close> is not among the sources. The
  crystal is the 25 MHz one of the spec's end-to-end scenario, in Hz; the register
  addresses are the numbers in the identifiers' names.
\<close>

definition SI5351_CRYSTAL_FREQ_25MHZ :: "32 word" where
  "SI5351_CRYSTAL_FREQ_25MHZ = 25000000"

definition SI5351_REGISTER_3_OUTPUT_ENABLE_CONTROL :: "8 word" where
  "SI5351_REGISTER_3_OUTPUT_ENABLE_CONTROL = 3"

definition SI5351_REGISTER_16_CLK0_CONTROL :: "8 word" where
  "SI5351_REGISTER_16_CLK0_CONTROL = 16"

definition SI5351_REGISTER_17_CLK1_CONTROL :: "8 word" where
  "SI5351_REGISTER_17_CLK1_CONTROL = 17"

definition SI5351_REGISTER_18_CLK2_CONTROL :: "8 word" where
  "SI5351_REGISTER_18_CLK2_CONTROL = 18"

definition SI5351_REGISTER_19_CLK3_CONTROL :: "8 word" where
  "SI5351_REGISTER_19_CLK3_CONTROL = 19"

definition SI5351_REGISTER_20_CLK4_CONTROL :: "8 word" where
  "SI5351_REGISTER_20_CLK4_CONTROL = 20"

definition SI5351_REGISTER_21_CLK5_CONTROL :: "8 word" where
  "SI5351_REGISTER_21_CLK5_CONTROL = 21"

definition SI5351_REGISTER_22_CLK6_CONTROL :: "8 word" where
  "SI5351_REGISTER_22_CLK6_CONTROL = 22"

definition SI5351_REGISTER_23_CLK7_CONTROL :: "8 word" where
  "SI5351_REGISTER_23_CLK7_CONTROL = 23"

definition SI5351_REGISTER_42_MULTISYNTH0_PARAMETERS_1 :: "8 word" where
  "SI5351_REGISTER_42_MULTISYNTH0_PARAMETERS_1 = 42"

definition SI5351_REGISTER_44_MULTISYNTH0_PARAMETERS_3 :: "8 word" where
  "SI5351_REGISTER_44_MULTISYNTH0_PARAMETERS_3 = 44"

definition SI5351_REGISTER_50_MULTISYNTH1_PARAMETERS_1 :: "8 word" where
  "SI5351_REGISTER_50_MULTISYNTH1_PARAMETERS_1 = 50"

definition SI5351_REGISTER_52_MULTISYNTH1_PARAMETERS_3 :: "8 word" where
  "SI5351_REGISTER_52_MULTISYNTH1_PARAMETERS_3 = 52"

definition SI5351_REGISTER_58_MULTISYNTH2_PARAMETERS_1 :: "8 word" where
  "SI5351_REGISTER_58_MULTISYNTH2_PARAMETERS_1 = 58"

definition SI5351_REGISTER_60_MULTISYNTH2_PARAMETERS_3 :: "8 word" where
  "SI5351_REGISTER_60_MULTISYNTH2_PARAMETERS_3 = 60"

definition SI5351_REGISTER_149_SPREAD_SPECTRUM_PARAMETERS :: "8 word" where
  "SI5351_REGISTER_149_SPREAD_SPECTRUM_PARAMETERS = 149"

definition SI5351_REGISTER_177_PLL_RESET :: "8 word" where
  "SI5351_REGISTER_177_PLL_RESET = 177"

definition SI5351_REGISTER_183_CRYSTAL_INTERNAL_LOAD_CAPACITANCE :: "8 word" where
  "SI5351_REGISTER_183_CRYSTAL_INTERNAL_LOAD_CAPACITANCE = 183"

text \<open>
  Modelled from the spec: the macros \<open>ASSERT\<close> and \<open>ASSERT_STATUS\<close> are declared outside
  the sources. \<open>ASSERT(c, e)\<close> returns \<open>e\<close> at once when \<open>c\<close> is false; \<open>ASSERT_STATUS(x)\<close>
  returns the result of \<open>x\<close> at once when it is not \<open>ERROR_NONE\<close> ("the first failure
  aborts the remaining steps and is surfaced immediately"). The second argument of each
  is the rest of the function body.
\<close>

definition ASSERT :: "bool \<Rightarrow> err_t \<Rightarrow> err_t op \<Rightarrow> err_t op" where
  "ASSERT c e k s = (if c then k s else (e, s))"

definition ASSERT_STATUS :: "err_t op \<Rightarrow> err_t op \<Rightarrow> err_t op" where
  "ASSERT_STATUS x k s = (case x s of (e, s') \<Rightarrow> if e = ERROR_NONE then k s' else (e, s'))"

definition return :: "err_t \<Rightarrow> err_t op" where
  "return e s = (e, s)"

section \<open>Private functions\<close>

definition write8 :: "8 word \<Rightarrow> 8 word \<Rightarrow> err_t op" where
  "write8 reg val s = (case i2c_write [reg, val] (i2c_dev s) of (ok, d) \<Rightarrow>
     (if ok then ERROR_NONE else ERROR_I2C_TRANSACTION, s\<lparr>i2c_dev := d\<rparr>))"

definition writeN :: "8 word list \<Rightarrow> err_t op" where
  "writeN data s = (case i2c_write data (i2c_dev s) of (ok, d) \<Rightarrow>
     (if ok then ERROR_NONE else ERROR_I2C_TRANSACTION, s\<lparr>i2c_dev := d\<rparr>))"

text \<open>\<open>read8\<close> returns its status together with the content of \<open>*value\<close> after the call.\<close>

definition read8 :: "8 word \<Rightarrow> (err_t \<times> 8 word) op" where
  "read8 reg s = (case i2c_write_then_read reg (i2c_dev s) of ((ok, v), d) \<Rightarrow>
     ((if ok then ERROR_NONE else ERROR_I2C_TRANSACTION, v), s\<lparr>i2c_dev := d\<rparr>))"

section \<open>Public functions\<close>

text \<open>
  The constructor. \<open>SI5351_CRYSTAL_LOAD_10PF\<close> is declared in the missing header and
  the bus is the environment's: both are parameters.
\<close>

definition Adafruit_SI5351_new :: "8 word \<Rightarrow> Adafruit_I2CDevice \<Rightarrow> Adafruit_SI5351" where
  "Adafruit_SI5351_new SI5351_CRYSTAL_LOAD_10PF bus =
     \<lparr>m_si5351Config =
        \<lparr>initialised = False,
         crystalFreq = SI5351_CRYSTAL_FREQ_25MHZ,
         crystalLoad = SI5351_CRYSTAL_LOAD_10PF,
         crystalPPM = 30,
         plla_configured = False,
         plla_freq = 0,
         pllb_configured = False,
         pllb_freq = 0\<rparr>,
      lastRdivValue = (\<lambda>i. 0),
      i2c_dev = bus\<rparr>"

definition enableSpreadSpectrum :: "bool \<Rightarrow> err_t op" where
  "enableSpreadSpectrum enabled s =
     (case read8 SI5351_REGISTER_149_SPREAD_SPECTRUM_PARAMETERS s of ((e, regval), s') \<Rightarrow>
        if e \<noteq> ERROR_NONE then (e, s')
        else ASSERT_STATUS
               (write8 SI5351_REGISTER_149_SPREAD_SPECTRUM_PARAMETERS
                  (if enabled then regval OR 0x80 else regval AND NOT 0x80))
               (return ERROR_NONE) s')"

text \<open>
  \<open>begin\<close>. The new bus handle talks to the same bus, so the log goes on. The result
  of \<open>enableSpreadSpectrum(false)\<close> is dropped, as in the source.
\<close>

definition begin_SI5351 :: "err_t op" where
  "begin_SI5351 s =
     (case i2c_begin (i2c_dev s) of (found, d) \<Rightarrow>
        if \<not> found then (ERROR_I2C_DEVICENOTFOUND, s\<lparr>i2c_dev := d\<rparr>)
        else
         (ASSERT_STATUS (write8 SI5351_REGISTER_3_OUTPUT_ENABLE_CONTROL 0xFF)
         (ASSERT_STATUS (write8 SI5351_REGISTER_16_CLK0_CONTROL 0x80)
         (ASSERT_STATUS (write8 SI5351_REGISTER_17_CLK1_CONTROL 0x80)
         (ASSERT_STATUS (write8 SI5351_REGISTER_18_CLK2_CONTROL 0x80)
         (ASSERT_STATUS (write8 SI5351_REGISTER_19_CLK3_CONTROL 0x80)
         (ASSERT_STATUS (write8 SI5351_REGISTER_20_CLK4_CONTROL 0x80)
         (ASSERT_STATUS (write8 SI5351_REGISTER_21_CLK5_CONTROL 0x80)
         (ASSERT_STATUS (write8 SI5351_REGISTER_22_CLK6_CONTROL 0x80)
         (ASSERT_STATUS (write8 SI5351_REGISTER_23_CLK7_CONTROL 0x80)
         (\<lambda>s1. ASSERT_STATUS
                 (write8 SI5351_REGISTER_183_CRYSTAL_INTERNAL_LOAD_CAPACITANCE
                    (crystalLoad (m_si5351Config s1)))
                 (\<lambda>s2. case enableSpreadSpectrum False s2 of (ignored, s3) \<Rightarrow>
                    (ERROR_NONE,
                     s3\<lparr>m_si5351Config := (m_si5351Config s3)
                          \<lparr>plla_configured := False, plla_freq := 0,
                           pllb_configured := False, pllb_freq := 0,
                           initialised := True\<rparr>\<rparr>))
                 s1))))))))))
           (s\<lparr>i2c_dev := d\<rparr>))"

text \<open>
  \<open>setClockBuilderData\<close>. The table \<open>m_si5351_regs_15to92_149to170\<close> is declared outside
  the sources and is a parameter; the loop writes its rows in order.
\<close>

fun write_regs :: "(8 word \<times> 8 word) list \<Rightarrow> err_t op \<Rightarrow> err_t op" where
  "write_regs [] k = k"
| "write_regs (r # rs) k = ASSERT_STATUS (write8 (fst r) (snd r)) (write_regs rs k)"

definition setClockBuilderData :: "(8 word \<times> 8 word) list \<Rightarrow> err_t op" where
  "setClockBuilderData m_si5351_regs_15to92_149to170 s =
     (ASSERT (initialised (m_si5351Config s)) ERROR_DEVICENOTINITIALISED
     (ASSERT_STATUS (write8 SI5351_REGISTER_3_OUTPUT_ENABLE_CONTROL 0xFF)
     (write_regs m_si5351_regs_15to92_149to170
     (ASSERT_STATUS (write8 SI5351_REGISTER_177_PLL_RESET 0xAC)
     (ASSERT_STATUS (write8 SI5351_REGISTER_3_OUTPUT_ENABLE_CONTROL 0x00)
     (return ERROR_NONE)))))) s"

definition enableOutputs :: "bool \<Rightarrow> err_t op" where
  "enableOutputs enabled s =
     (ASSERT (initialised (m_si5351Config s)) ERROR_DEVICENOTINITIALISED
     (ASSERT_STATUS
        (write8 SI5351_REGISTER_3_OUTPUT_ENABLE_CONTROL (if enabled then 0x00 else 0xFF))
     (return ERROR_NONE))) s"

subsection \<open>setupPLL\<close>

text \<open>
  The three fields, as the two branches of \<open>setupPLL\<close> compute them. In integer mode
  \<open>128 * mult - 512\<close> is \<open>int\<close> arithmetic on the promoted \<open>uint8_t\<close>. In fractional
  mode \<open>128 * mult\<close> is an \<open>int\<close> and \<open>128 * num\<close> a \<open>uint32_t\<close>; both are converted to
  the type of \<open>floor\<close>'s result, and the outcome is converted to \<open>uint32_t\<close>.
\<close>

definition setupPLL_P ::
  "platform \<Rightarrow> 8 word \<Rightarrow> 32 word \<Rightarrow> 32 word \<Rightarrow> 32 word \<times> 32 word \<times> 32 word" where
  "setupPLL_P pf mult num denom =
     (if num = 0 then
        (word_of_int (128 * uint mult - 512), num, denom)
      else
        (to_uint32 pf
           (fD pf (fD pf (fD pf (of_int (128 * uint mult)) + of_int (floor128 num denom)) - 512)),
         to_uint32 pf
           (fD pf (fD pf (of_nat (unat (128 * num)))
                   - fD pf (fD pf (of_nat (unat denom)) * of_int (floor128 num denom)))),
         denom))"

text \<open>
  \<open>float fvco = crystalFreq * (mult + ((float)num / (float)denom))\<close>, all in \<open>float\<close>.
\<close>

definition fvco :: "32 word \<Rightarrow> 8 word \<Rightarrow> 32 word \<Rightarrow> 32 word \<Rightarrow> rat" where
  "fvco xtal mult num denom =
     f32 (f32 (of_nat (unat xtal)) * f32 (f32 (of_nat (unat mult)) + fdiv num denom))"

definition setupPLL ::
  "platform \<Rightarrow> si5351PLL_t \<Rightarrow> 8 word \<Rightarrow> 32 word \<Rightarrow> 32 word \<Rightarrow> err_t op" where
  "setupPLL pf pll mult num denom s =
     (ASSERT (initialised (m_si5351Config s)) ERROR_DEVICENOTINITIALISED
     (ASSERT (14 < mult \<and> mult < 91) ERROR_INVALIDPARAMETER
     (ASSERT (0 < denom) ERROR_INVALIDPARAMETER
     (ASSERT (num \<le> 0xFFFFF) ERROR_INVALIDPARAMETER
     (ASSERT (denom \<le> 0xFFFFF) ERROR_INVALIDPARAMETER
     (case setupPLL_P pf mult num denom of (P1, P2, P3) \<Rightarrow>
      let baseaddr = (if pll = SI5351_PLL_A then 26 else 34) in
     (ASSERT_STATUS (write8 baseaddr (ucast (drop_bit 8 (P3 AND 0x0000FF00))))
     (ASSERT_STATUS (write8 (baseaddr + 1) (ucast (P3 AND 0x000000FF)))
     (ASSERT_STATUS (write8 (baseaddr + 2) (ucast (drop_bit 16 (P1 AND 0x00030000))))
     (ASSERT_STATUS (write8 (baseaddr + 3) (ucast (drop_bit 8 (P1 AND 0x0000FF00))))
     (ASSERT_STATUS (write8 (baseaddr + 4) (ucast (P1 AND 0x000000FF)))
     (ASSERT_STATUS (write8 (baseaddr + 5)
                       (ucast (drop_bit 12 (P3 AND 0x000F0000) OR drop_bit 16 (P2 AND 0x000F0000))))
     (ASSERT_STATUS (write8 (baseaddr + 6) (ucast (drop_bit 8 (P2 AND 0x0000FF00))))
     (ASSERT_STATUS (write8 (baseaddr + 7) (ucast (P2 AND 0x000000FF)))
     (ASSERT_STATUS (write8 SI5351_REGISTER_177_PLL_RESET (push_bit 7 1 OR push_bit 5 1))
     (\<lambda>s'. (ERROR_NONE,
        s'\<lparr>m_si5351Config :=
             (if pll = SI5351_PLL_A then
                (m_si5351Config s')
                  \<lparr>plla_configured := True,
                   plla_freq :=
                     to_uint32 pf (of_int \<lfloor>fvco (crystalFreq (m_si5351Config s')) mult num denom\<rfloor>)\<rparr>
              else
                (m_si5351Config s')
                  \<lparr>pllb_configured := True,
                   pllb_freq :=
                     to_uint32 pf (of_int \<lfloor>fvco (crystalFreq (m_si5351Config s')) mult num denom\<rfloor>)\<rparr>)
           \<rparr>))))))))))))))))) s"

definition setupPLLInt :: "platform \<Rightarrow> si5351PLL_t \<Rightarrow> 8 word \<Rightarrow> err_t op" where
  "setupPLLInt pf pll mult = setupPLL pf pll mult 0 1"

subsection \<open>setupRdiv\<close>

text \<open>
  The three \<open>if\<close>s that choose \<open>Rreg\<close> run after the check \<open>output < 3\<close>, so exactly one
  of them assigns. The status of \<open>read8\<close> is dropped, as in the source.
\<close>

definition setupRdiv :: "8 word \<Rightarrow> 8 word \<Rightarrow> err_t op" where
  "setupRdiv output div' s =
     (ASSERT (output < 3) ERROR_INVALIDPARAMETER
     (\<lambda>s0.
        let Rreg = (if output = 0 then SI5351_REGISTER_44_MULTISYNTH0_PARAMETERS_3
                    else if output = 1 then SI5351_REGISTER_52_MULTISYNTH1_PARAMETERS_3
                    else SI5351_REGISTER_60_MULTISYNTH2_PARAMETERS_3)
        in case read8 Rreg s0 of ((ignored, regval), s1) \<Rightarrow>
          let regval1 = regval AND 0x0F;
              divider = push_bit 4 (div' AND 0x07);
              regval2 = regval1 OR divider;
              s2 = s1\<lparr>lastRdivValue := (lastRdivValue s1)(unat output := divider)\<rparr>
          in write8 Rreg regval2 s2)) s"

subsection \<open>setupMultisynth\<close>

text \<open>
  The three fields, as the three branches of \<open>setupMultisynth\<close> compute them. The first
  two branches are \<open>uint32_t\<close> arithmetic.
\<close>

definition setupMultisynth_P ::
  "platform \<Rightarrow> 32 word \<Rightarrow> 32 word \<Rightarrow> 32 word \<Rightarrow> 32 word \<times> 32 word \<times> 32 word" where
  "setupMultisynth_P pf div' num denom =
     (if num = 0 then
        (128 * div' - 512, 0, denom)
      else if denom = 1 then
        (128 * div' + 128 * num - 512, 128 * num - 128, 1)
      else
        (to_uint32 pf
           (fD pf (fD pf (fD pf (of_nat (unat (128 * div'))) + of_int (floor128 num denom)) - 512)),
         to_uint32 pf
           (fD pf (fD pf (of_nat (unat (128 * num)))
                   - fD pf (fD pf (of_nat (unat denom)) * of_int (floor128 num denom)))),
         denom))"

text \<open>The buffer of the burst: the base address, then the eight register bytes.\<close>

definition sendBuffer ::
  "8 word \<Rightarrow> 8 word \<Rightarrow> 32 word \<times> 32 word \<times> 32 word \<Rightarrow> 8 word list" where
  "sendBuffer baseaddr lastRdiv P =
     (case P of (P1, P2, P3) \<Rightarrow>
       [baseaddr,
        ucast (drop_bit 8 (P3 AND 0xFF00)),
        ucast (P3 AND 0xFF),
        ucast (drop_bit 16 (P1 AND 0x30000) OR ucast lastRdiv),
        ucast (drop_bit 8 (P1 AND 0xFF00)),
        ucast (P1 AND 0xFF),
        ucast (drop_bit 12 (P3 AND 0xF0000) OR drop_bit 16 (P2 AND 0xF0000)),
        ucast (drop_bit 8 (P2 AND 0xFF00)),
        ucast (P2 AND 0xFF)])"

definition clkControlReg :: "si5351PLL_t \<Rightarrow> 32 word \<Rightarrow> 8 word" where
  "clkControlReg pllSource num =
     (let c0 = 0x0F;
          c1 = (if pllSource = SI5351_PLL_B then c0 OR push_bit 5 1 else c0);
          c2 = (if num = 0 then c1 OR push_bit 6 1 else c1)
      in c2)"

definition setupMultisynth ::
  "platform \<Rightarrow> 8 word \<Rightarrow> si5351PLL_t \<Rightarrow> 32 word \<Rightarrow> 32 word \<Rightarrow> 32 word \<Rightarrow> err_t op" where
  "setupMultisynth pf output pllSource div' num denom s =
     (ASSERT (initialised (m_si5351Config s)) ERROR_DEVICENOTINITIALISED
     (ASSERT (output < 3) ERROR_INVALIDPARAMETER
     (ASSERT (3 < div') ERROR_INVALIDPARAMETER
     (ASSERT (div' < 2049) ERROR_INVALIDPARAMETER
     (ASSERT (0 < denom) ERROR_INVALIDPARAMETER
     (ASSERT (num \<le> 0xFFFFF) ERROR_INVALIDPARAMETER
     (ASSERT (denom \<le> 0xFFFFF) ERROR_INVALIDPARAMETER
     (ASSERT (if pllSource = SI5351_PLL_A then plla_configured (m_si5351Config s)
              else pllb_configured (m_si5351Config s)) ERROR_INVALIDPARAMETER
     (let baseaddr = (if output = 0 then SI5351_REGISTER_42_MULTISYNTH0_PARAMETERS_1
                      else if output = 1 then SI5351_REGISTER_50_MULTISYNTH1_PARAMETERS_1
                      else if output = 2 then SI5351_REGISTER_58_MULTISYNTH2_PARAMETERS_1
                      else 0)
      in
     (ASSERT_STATUS
        (writeN (sendBuffer baseaddr (lastRdivValue s (unat output))
                   (setupMultisynth_P pf div' num denom)))
     (if output = 0 then
        ASSERT_STATUS (write8 SI5351_REGISTER_16_CLK0_CONTROL (clkControlReg pllSource num))
          (return ERROR_NONE)
      else if output = 1 then
        ASSERT_STATUS (write8 SI5351_REGISTER_17_CLK1_CONTROL (clkControlReg pllSource num))
          (return ERROR_NONE)
      else if output = 2 then
        ASSERT_STATUS (write8 SI5351_REGISTER_18_CLK2_CONTROL (clkControlReg pllSource num))
          (return ERROR_NONE)
      else return ERROR_NONE))))))))))) s"

definition setupMultisynthInt ::
  "platform \<Rightarrow> 8 word \<Rightarrow> si5351PLL_t \<Rightarrow> 32 word \<Rightarrow> err_t op" where
  "setupMultisynthInt pf output pllSource div' = setupMultisynth pf output pllSource div' 0 1"

section \<open>The formulas of the specification\<close>

text \<open>
  The fields as the specification and the comments in \<open>setupPLL\<close> and \<open>setupMultisynth\<close>
  give them, over the integers: \<open>P1 = 128 a + floor(128 b / c) - 512\<close>,
  \<open>P2 = 128 b - c floor(128 b / c)\<close>, \<open>P3 = c\<close>.
\<close>

definition spec_P1 :: "nat \<Rightarrow> nat \<Rightarrow> nat \<Rightarrow> int" where
  "spec_P1 a b c = 128 * int a + int ((128 * b) div c) - 512"

definition spec_P2 :: "nat \<Rightarrow> nat \<Rightarrow> nat \<Rightarrow> int" where
  "spec_P2 a b c = 128 * int b - int c * int ((128 * b) div c)"

definition spec_P3 :: "nat \<Rightarrow> nat \<Rightarrow> nat \<Rightarrow> int" where
  "spec_P3 a b c = int c"

section \<open>Vocabulary of the statements\<close>

text \<open>The flag and the frequency of the PLL that a \<open>si5351PLL_t\<close> selects.\<close>

definition pll_configured :: "si5351PLL_t \<Rightarrow> si5351Config_t \<Rightarrow> bool" where
  "pll_configured pll c = (if pll = SI5351_PLL_A then plla_configured c else pllb_configured c)"

definition pll_freq :: "si5351PLL_t \<Rightarrow> si5351Config_t \<Rightarrow> 32 word" where
  "pll_freq pll c = (if pll = SI5351_PLL_A then plla_freq c else pllb_freq c)"

text \<open>The assignment that ends \<open>setupPLL\<close>, as a function of the configuration.\<close>

definition store_pll ::
  "platform \<Rightarrow> si5351PLL_t \<Rightarrow> 8 word \<Rightarrow> 32 word \<Rightarrow> 32 word \<Rightarrow> si5351Config_t \<Rightarrow> si5351Config_t" where
  "store_pll pf pll mult num denom c =
     (if pll = SI5351_PLL_A then
        c\<lparr>plla_configured := True,
          plla_freq := to_uint32 pf (of_int \<lfloor>fvco (crystalFreq c) mult num denom\<rfloor>)\<rparr>
      else
        c\<lparr>pllb_configured := True,
          pllb_freq := to_uint32 pf (of_int \<lfloor>fvco (crystalFreq c) mult num denom\<rfloor>)\<rparr>)"

text \<open>Every transaction from now on is acknowledged.\<close>

definition acks :: "Adafruit_SI5351 \<Rightarrow> bool" where
  "acks s = (\<forall>n. length (sent (i2c_dev s)) \<le> n \<longrightarrow> ack (i2c_dev s) n)"

text \<open>An operation that leaves the configuration alone whenever it returns an error.\<close>

definition keeps_cfg_on_error :: "err_t op \<Rightarrow> bool" where
  "keeps_cfg_on_error f =
     (\<forall>s. fst (f s) \<noteq> ERROR_NONE \<longrightarrow> m_si5351Config (snd (f s)) = m_si5351Config s)"

text \<open>
  An operation that, on a bus that acknowledges, returns \<open>ERROR_NONE\<close>, changes the
  configuration by \<open>g\<close> and keeps \<open>lastRdivValue\<close>.
\<close>

definition on_ack :: "err_t op \<Rightarrow> (si5351Config_t \<Rightarrow> si5351Config_t) \<Rightarrow> bool" where
  "on_ack f g =
     (\<forall>s. acks s \<longrightarrow>
        fst (f s) = ERROR_NONE \<and> acks (snd (f s))
        \<and> m_si5351Config (snd (f s)) = g (m_si5351Config s)
        \<and> lastRdivValue (snd (f s)) = lastRdivValue s)"

text \<open>
  An operation that returns \<open>ERROR_NONE\<close> only when the next \<open>n\<close> transactions are
  acknowledged; it then has issued exactly these \<open>n\<close> and changed the configuration by
  \<open>g\<close>.
\<close>

definition only_after_acks :: "err_t op \<Rightarrow> nat \<Rightarrow> (si5351Config_t \<Rightarrow> si5351Config_t) \<Rightarrow> bool" where
  "only_after_acks f n g =
     (\<forall>s. fst (f s) = ERROR_NONE \<longrightarrow>
        (\<forall>i<n. ack (i2c_dev s) (length (sent (i2c_dev s)) + i))
        \<and> length (sent (i2c_dev (snd (f s)))) = length (sent (i2c_dev s)) + n
        \<and> ack (i2c_dev (snd (f s))) = ack (i2c_dev s)
        \<and> m_si5351Config (snd (f s)) = g (m_si5351Config s))"

section \<open>Instances for the examples\<close>

text \<open>
  A bus with an empty log on which exactly the transactions numbered in \<open>ns\<close> fail and
  every read leaves \<open>b\<close> in the buffer; two platforms (on \<open>binary64\<close> an out-of-range
  conversion wraps modulo \<open>2^32\<close>); an object as a successful \<open>begin\<close> leaves it, and the
  same with PLL A configured.
\<close>

definition bus_failing :: "nat list \<Rightarrow> 8 word \<Rightarrow> Adafruit_I2CDevice" where
  "bus_failing ns b = \<lparr>ack = (\<lambda>n. n \<notin> set ns), rx = (\<lambda>n. b), sent = []\<rparr>"

definition binary32 :: platform where
  "binary32 = \<lparr>floor_prec = 24, conv_oor = (\<lambda>t. 0)\<rparr>"

definition binary64 :: platform where
  "binary64 = \<lparr>floor_prec = 53, conv_oor = (\<lambda>t. word_of_int t)\<rparr>"

definition ready :: "Adafruit_I2CDevice \<Rightarrow> Adafruit_SI5351" where
  "ready bus =
     \<lparr>m_si5351Config =
        \<lparr>initialised = True, crystalFreq = SI5351_CRYSTAL_FREQ_25MHZ, crystalLoad = 0xC0,
         crystalPPM = 30, plla_configured = False, plla_freq = 0,
         pllb_configured = False, pllb_freq = 0\<rparr>,
      lastRdivValue = (\<lambda>i. 0),
      i2c_dev = bus\<rparr>"

definition ready_plla :: "Adafruit_I2CDevice \<Rightarrow> Adafruit_SI5351" where
  "ready_plla bus =
     (ready bus)\<lparr>m_si5351Config :=
        (m_si5351Config (ready bus))\<lparr>plla_configured := True, plla_freq := 900000000\<rparr>\<rparr>"

section \<open>Rounding\<close>

lemma rne_of_int: "rne (of_int n) = n"
  by (simp add: rne_def)

lemma rne_le: "y \<le> of_int N \<Longrightarrow> rne y \<le> N"
proof -
  assume a: "y \<le> of_int N"
  have f: "\<lfloor>y\<rfloor> \<le> N" using a by (simp add: floor_le_iff) 
  show ?thesis
  proof (cases "\<lfloor>y\<rfloor> = N")
    case True
    then have "of_int N \<le> y" by (metis of_int_floor_le)
    with a have "y = of_int N" by simp
    then show ?thesis by (simp add: rne_of_int)
  next
    case False
    with f have "\<lfloor>y\<rfloor> + 1 \<le> N" by simp
    then show ?thesis by (auto simp: rne_def Let_def)
  qed
qed

lemma rne_ge: "of_int N \<le> y \<Longrightarrow> N \<le> rne y"
proof -
  assume a: "of_int N \<le> y"
  then have "N \<le> \<lfloor>y\<rfloor>" by (simp add: le_floor_iff)
  then show ?thesis by (auto simp: rne_def Let_def)
qed

lemma ilog2_bounds:
  assumes "0 < x"
  shows "2 powi (ilog2 x) \<le> x" and "x < 2 powi (ilog2 x + 1)"
proof -
  obtain a b where q: "quotient_of x = (a, b)" by (cases "quotient_of x") auto
  have b: "0 < b" using q by (rule quotient_of_denom_pos)
  have x: "x = of_int a / of_int b" using q by (rule quotient_of_div)
  have a: "0 < a" using assms b x by (simp add: zero_less_divide_iff)
  define l where "l = bitlen a - bitlen b"
  have ba: "2 ^ nat (bitlen a - 1) \<le> a" "a < 2 ^ nat (bitlen a)" using bitlen_bounds[OF a] by auto
  have bb: "2 ^ nat (bitlen b - 1) \<le> b" "b < 2 ^ nat (bitlen b)" using bitlen_bounds[OF b] by auto
  have la: "1 \<le> bitlen a" using a by (simp add: bitlen_alt_def)
  have lb: "1 \<le> bitlen b" using b by (simp add: bitlen_alt_def)
  have ra1: "(2::rat) powi (bitlen a - 1) \<le> of_int a"
  proof -
    have "(of_int (2 ^ nat (bitlen a - 1)) :: rat) \<le> of_int a" using ba(1) by (simp only: of_int_le_iff)
    then show ?thesis using la by (simp add: power_int_def)
  qed
  have ra2: "(of_int a :: rat) < 2 powi (bitlen a)"
  proof -
    have "(of_int a :: rat) < of_int (2 ^ nat (bitlen a))" using ba(2) by (simp only: of_int_less_iff)
    then show ?thesis using la by (simp add: power_int_def)
  qed
  have rb1: "(2::rat) powi (bitlen b - 1) \<le> of_int b"
  proof -
    have "(of_int (2 ^ nat (bitlen b - 1)) :: rat) \<le> of_int b" using bb(1) by (simp only: of_int_le_iff)
    then show ?thesis using lb by (simp add: power_int_def)
  qed
  have rb2: "(of_int b :: rat) < 2 powi (bitlen b)"
  proof -
    have "(of_int b :: rat) < of_int (2 ^ nat (bitlen b))" using bb(2) by (simp only: of_int_less_iff)
    then show ?thesis using lb by (simp add: power_int_def)
  qed
  have bpos: "(0::rat) < of_int b" using b by simp
  have p0: "\<And>k. (0::rat) < 2 powi k" by simp
  have lo: "2 powi (l - 1) \<le> x"
  proof -
    have "(2::rat) powi (l - 1) * of_int b \<le> 2 powi (l - 1) * 2 powi (bitlen b)"
      using rb2 by (simp add: less_imp_le)
    also have "\<dots> = 2 powi (bitlen a - 1)"
      by (simp add: l_def power_int_add [symmetric])
    also have "\<dots> \<le> of_int a" by (rule ra1)
    finally show ?thesis using bpos by (simp add: x pos_le_divide_eq)
  qed
  have hi: "x < 2 powi (l + 1)"
  proof -
    have "(of_int a :: rat) < 2 powi (bitlen a)" by (rule ra2)
    also have "\<dots> = 2 powi (l + 1) * 2 powi (bitlen b - 1)"
      by (simp add: l_def power_int_add [symmetric])
    also have "\<dots> \<le> 2 powi (l + 1) * of_int b"
      using rb1 by simp
    finally show ?thesis using bpos by (simp add: x pos_divide_less_eq)
  qed
  have il: "ilog2 x = (if x < 2 powi l then l - 1 else l)"
    by (simp add: ilog2_def q l_def Let_def)
  show "2 powi (ilog2 x) \<le> x" using lo by (simp add: il)
  show "x < 2 powi (ilog2 x + 1)" using hi by (simp add: il)
qed

lemma powi2_less_imp: "(2::rat) powi a < 2 powi b \<Longrightarrow> a < b"
proof (rule ccontr)
  assume h: "(2::rat) powi a < 2 powi b" and n: "\<not> a < b"
  then have "b \<le> a" by simp
  then have "(2::rat) powi b \<le> 2 powi a" by (rule power_int_increasing) simp
  with h show False by simp
qed

lemma powi2_nat: "0 \<le> k \<Longrightarrow> (2::rat) powi k = of_int (2 ^ nat k)"
  by (simp add: power_int_def)

lemma fl_exact:
  assumes m: "\<bar>m\<bar> < 2 ^ p"
  shows "fl p (of_int m * 2 powi k) = of_int m * 2 powi k"
proof (cases "m = 0")
  case True
  then show ?thesis by (simp add: fl_def)
next
  case False
  define x :: rat where "x = of_int m * 2 powi k"
  have x0: "x \<noteq> 0" using False by (simp add: x_def)
  have ax: "\<bar>x\<bar> = of_int \<bar>m\<bar> * 2 powi k" by (simp add: x_def abs_mult)
  have pos: "0 < \<bar>x\<bar>" using x0 by simp
  define E where "E = ilog2 \<bar>x\<bar>"
  define e where "e = E - (int p - 1)"
  have "2 powi E \<le> \<bar>x\<bar>" unfolding E_def using pos by (rule ilog2_bounds)
  also have "\<bar>x\<bar> < 2 ^ p * 2 powi k"
  proof -
    have "(of_int \<bar>m\<bar> :: rat) < of_int (2 ^ p)" using m by (simp only: of_int_less_iff)
    then show ?thesis by (simp add: ax)
  qed
  also have "(2::rat) ^ p * 2 powi k = 2 powi (int p + k)"
    by (simp add: power_int_add)
  finally have "E < int p + k" by (rule powi2_less_imp)
  then have ek: "0 \<le> k - e" by (simp add: e_def)
  have "x / 2 powi e = of_int m * 2 powi (k - e)"
    by (simp add: x_def power_int_diff)
  also have "\<dots> = of_int (m * 2 ^ nat (k - e))"
    using ek by (simp add: powi2_nat)
  finally have r: "rne (x / 2 powi e) = m * 2 ^ nat (k - e)"
    by (simp only: rne_of_int)
  have "fl p x = of_int (rne (x / 2 powi e)) * 2 powi e"
    using x0 by (simp add: fl_def Let_def e_def E_def)
  also have "\<dots> = of_int m * (2 powi (k - e) * 2 powi e)"
    using ek by (simp add: r powi2_nat)
  also have "\<dots> = x"
    by (simp add: x_def power_int_add [symmetric])
  finally show ?thesis by (simp add: x_def)
qed

lemma fl_of_nat: "n < 2 ^ p \<Longrightarrow> fl p (of_nat n) = of_nat n"
  using fl_exact [of "int n" p 0] by simp

lemma fl_of_int: "\<bar>n\<bar> < 2 ^ p \<Longrightarrow> fl p (of_int n) = of_int n"
  using fl_exact [of n p 0] by simp

lemma fl_nonneg: "0 \<le> x \<Longrightarrow> 0 \<le> fl p x"
proof -
  assume x: "0 \<le> x"
  have "\<And>e. 0 \<le> rne (x / 2 powi e)"
    by (rule rne_ge) (simp add: x)
  then show ?thesis by (simp add: fl_def Let_def)
qed

lemma fl_le_pow2:
  assumes x: "0 < x" "x \<le> 2 powi j" and p: "0 < p"
  shows "fl p x \<le> 2 powi j"
proof -
  define E where "E = ilog2 x"
  define e where "e = E - (int p - 1)"
  have "2 powi E \<le> x" unfolding E_def using x(1) by (rule ilog2_bounds)
  also have "x < 2 powi (j + 1)"
  proof -
    have "(2::rat) powi j < 2 powi (j + 1)" by (rule power_int_strict_increasing) simp_all
    with x(2) show ?thesis by simp
  qed
  finally have "E < j + 1" by (rule powi2_less_imp)
  then have je: "0 \<le> j - e" using p by (simp add: e_def)
  have "x / 2 powi e \<le> 2 powi j / 2 powi e"
    using x(2) by (simp add: divide_right_mono)
  also have "\<dots> = 2 powi (j - e)"
    by (simp add: power_int_diff)
  also have "\<dots> = of_int (2 ^ nat (j - e))"
    using je by (rule powi2_nat)
  finally have "rne (x / 2 powi e) \<le> 2 ^ nat (j - e)" by (rule rne_le)
  then have "(of_int (rne (x / 2 powi e)) :: rat) \<le> of_int (2 ^ nat (j - e))"
    by (simp only: of_int_le_iff)
  then have "of_int (rne (x / 2 powi e)) * 2 powi e \<le> of_int (2 ^ nat (j - e)) * (2::rat) powi e"
    by (simp add: mult_right_mono)
  also have "of_int (2 ^ nat (j - e)) * (2::rat) powi e = 2 powi (j - e) * 2 powi e"
    using je by (simp add: powi2_nat)
  also have "\<dots> = 2 powi j"
    by (simp add: power_int_add [symmetric])
  finally show ?thesis using x(1) by (simp add: fl_def Let_def e_def E_def abs_of_pos)
qed

section \<open>Running the operations\<close>

lemmas regs = SI5351_REGISTER_3_OUTPUT_ENABLE_CONTROL_def SI5351_REGISTER_16_CLK0_CONTROL_def
  SI5351_REGISTER_17_CLK1_CONTROL_def SI5351_REGISTER_18_CLK2_CONTROL_def
  SI5351_REGISTER_19_CLK3_CONTROL_def SI5351_REGISTER_20_CLK4_CONTROL_def
  SI5351_REGISTER_21_CLK5_CONTROL_def SI5351_REGISTER_22_CLK6_CONTROL_def
  SI5351_REGISTER_23_CLK7_CONTROL_def SI5351_REGISTER_42_MULTISYNTH0_PARAMETERS_1_def
  SI5351_REGISTER_44_MULTISYNTH0_PARAMETERS_3_def SI5351_REGISTER_50_MULTISYNTH1_PARAMETERS_1_def
  SI5351_REGISTER_52_MULTISYNTH1_PARAMETERS_3_def SI5351_REGISTER_58_MULTISYNTH2_PARAMETERS_1_def
  SI5351_REGISTER_60_MULTISYNTH2_PARAMETERS_3_def SI5351_REGISTER_149_SPREAD_SPECTRUM_PARAMETERS_def
  SI5351_REGISTER_177_PLL_RESET_def SI5351_REGISTER_183_CRYSTAL_INTERNAL_LOAD_CAPACITANCE_def

lemmas ops = ASSERT_def ASSERT_STATUS_def return_def write8_def writeN_def read8_def
  i2c_begin_def i2c_write_def i2c_write_then_read_def

lemmas fixtures = ready_def ready_plla_def bus_failing_def binary32_def binary64_def
  Adafruit_SI5351_new_def SI5351_CRYSTAL_FREQ_25MHZ_def

subsection \<open>Bus writes\<close>

lemma write8_cfg: "m_si5351Config (snd (write8 r v s)) = m_si5351Config s"
  by (simp add: write8_def i2c_write_def)

lemma write8_rdiv: "lastRdivValue (snd (write8 r v s)) = lastRdivValue s"
  by (simp add: write8_def i2c_write_def)

lemma writeN_cfg: "m_si5351Config (snd (writeN b s)) = m_si5351Config s"
  by (simp add: writeN_def i2c_write_def)

lemma writeN_rdiv: "lastRdivValue (snd (writeN b s)) = lastRdivValue s"
  by (simp add: writeN_def i2c_write_def)

lemma write8_acks: "acks s \<Longrightarrow> fst (write8 r v s) = ERROR_NONE \<and> acks (snd (write8 r v s))"
  by (simp add: acks_def write8_def i2c_write_def)

lemma writeN_acks: "acks s \<Longrightarrow> fst (writeN b s) = ERROR_NONE \<and> acks (snd (writeN b s))"
  by (simp add: acks_def writeN_def i2c_write_def)

subsection \<open>A failing operation keeps the configuration\<close>

lemma kc_ASSERT: "keeps_cfg_on_error k \<Longrightarrow> keeps_cfg_on_error (ASSERT c e k)"
  by (simp add: keeps_cfg_on_error_def ASSERT_def)

lemma kc_ASSERT_s: "keeps_cfg_on_error k \<Longrightarrow> keeps_cfg_on_error (\<lambda>s. ASSERT (c s) e k s)"
  by (simp add: keeps_cfg_on_error_def ASSERT_def)

lemma kc_write8: "keeps_cfg_on_error k \<Longrightarrow> keeps_cfg_on_error (ASSERT_STATUS (write8 r v) k)"
  unfolding keeps_cfg_on_error_def ASSERT_STATUS_def
proof (intro allI impI)
  fix s
  assume k: "\<forall>s. fst (k s) \<noteq> ERROR_NONE \<longrightarrow> m_si5351Config (snd (k s)) = m_si5351Config s"
    and e: "fst (case write8 r v s of (e, s') \<Rightarrow> if e = ERROR_NONE then k s' else (e, s')) \<noteq> ERROR_NONE"
  obtain e1 s1 where w: "write8 r v s = (e1, s1)" by (cases "write8 r v s") auto
  have c: "m_si5351Config s1 = m_si5351Config s" using write8_cfg [of r v s] by (simp add: w)
  show "m_si5351Config (snd (case write8 r v s of (e, s') \<Rightarrow> if e = ERROR_NONE then k s' else (e, s')))
        = m_si5351Config s"
    using k e c by (auto simp: w)
qed

lemma kc_done: "keeps_cfg_on_error (\<lambda>s. (ERROR_NONE, f s))"
  by (simp add: keeps_cfg_on_error_def)

lemma kc_setupPLL: "keeps_cfg_on_error (\<lambda>s. setupPLL pf pll mult num denom s)"
  unfolding setupPLL_def Let_def
  apply (cases "setupPLL_P pf mult num denom")
  apply (simp only: prod.case)
  apply (intro kc_ASSERT_s kc_ASSERT kc_write8 kc_done)
  done

subsection \<open>Success needs every write acknowledged\<close>

lemma aa_ASSERT:
  "e \<noteq> ERROR_NONE \<Longrightarrow> only_after_acks k n g \<Longrightarrow> only_after_acks (ASSERT c e k) n g"
  by (simp add: only_after_acks_def ASSERT_def)

lemma aa_ASSERT_s:
  "e \<noteq> ERROR_NONE \<Longrightarrow> only_after_acks k n g \<Longrightarrow> only_after_acks (\<lambda>s. ASSERT (c s) e k s) n g"
  by (simp add: only_after_acks_def ASSERT_def)

lemma aa_write8:
  assumes k: "only_after_acks k n g"
  shows "only_after_acks (ASSERT_STATUS (write8 r v) k) (Suc n) g"
  unfolding only_after_acks_def
proof (intro allI impI)
  fix s :: Adafruit_SI5351
  let ?s1 = "s\<lparr>i2c_dev := (i2c_dev s)\<lparr>sent := sent (i2c_dev s) @ [Write [r, v]]\<rparr>\<rparr>"
  assume ok: "fst (ASSERT_STATUS (write8 r v) k s) = ERROR_NONE"
  have a0: "ack (i2c_dev s) (length (sent (i2c_dev s)))"
    using ok by (cases "ack (i2c_dev s) (length (sent (i2c_dev s)))")
      (simp_all add: ASSERT_STATUS_def write8_def i2c_write_def)
  then have run: "ASSERT_STATUS (write8 r v) k s = k ?s1"
    by (simp add: ASSERT_STATUS_def write8_def i2c_write_def)
  with ok have "fst (k ?s1) = ERROR_NONE" by simp
  with k have K: "\<forall>i<n. ack (i2c_dev ?s1) (length (sent (i2c_dev ?s1)) + i)"
    "length (sent (i2c_dev (snd (k ?s1)))) = length (sent (i2c_dev ?s1)) + n"
    "ack (i2c_dev (snd (k ?s1))) = ack (i2c_dev ?s1)"
    "m_si5351Config (snd (k ?s1)) = g (m_si5351Config ?s1)"
    unfolding only_after_acks_def by blast+
  have acks: "\<forall>i<Suc n. ack (i2c_dev s) (length (sent (i2c_dev s)) + i)"
  proof (intro allI impI)
    fix i assume i: "i < Suc n"
    show "ack (i2c_dev s) (length (sent (i2c_dev s)) + i)"
    proof (cases i)
      case 0
      then show ?thesis using a0 by simp
    next
      case (Suc j)
      with i have "j < n" by simp
      with K(1) have "ack (i2c_dev ?s1) (length (sent (i2c_dev ?s1)) + j)" by blast
      then show ?thesis using Suc by simp
    qed
  qed
  show "(\<forall>i<Suc n. ack (i2c_dev s) (length (sent (i2c_dev s)) + i))
        \<and> length (sent (i2c_dev (snd (ASSERT_STATUS (write8 r v) k s))))
            = length (sent (i2c_dev s)) + Suc n
        \<and> ack (i2c_dev (snd (ASSERT_STATUS (write8 r v) k s))) = ack (i2c_dev s)
        \<and> m_si5351Config (snd (ASSERT_STATUS (write8 r v) k s)) = g (m_si5351Config s)"
    using acks K(2,3,4) by (simp add: run)
qed

lemma aa_store_pll:
  "only_after_acks (\<lambda>s'. (ERROR_NONE,
        s'\<lparr>m_si5351Config :=
             (if pll = SI5351_PLL_A then
                (m_si5351Config s')
                  \<lparr>plla_configured := True,
                   plla_freq :=
                     to_uint32 pf (of_int \<lfloor>fvco (crystalFreq (m_si5351Config s')) mult num denom\<rfloor>)\<rparr>
              else
                (m_si5351Config s')
                  \<lparr>pllb_configured := True,
                   pllb_freq :=
                     to_uint32 pf (of_int \<lfloor>fvco (crystalFreq (m_si5351Config s')) mult num denom\<rfloor>)\<rparr>)
           \<rparr>)) 0 (store_pll pf pll mult num denom)"
  by (simp add: only_after_acks_def store_pll_def)

lemma aa_setupPLL:
  "only_after_acks (\<lambda>s. setupPLL pf pll mult num denom s)
     (Suc (Suc (Suc (Suc (Suc (Suc (Suc (Suc (Suc 0)))))))))
     (store_pll pf pll mult num denom)"
  unfolding setupPLL_def Let_def
  apply (cases "setupPLL_P pf mult num denom")
  apply (simp only: prod.case)
  apply (intro aa_ASSERT_s aa_ASSERT aa_write8 aa_store_pll)
  apply simp_all
  done

subsection \<open>An operation on a bus that acknowledges\<close>

lemma oa_write8: "on_ack k g \<Longrightarrow> on_ack (ASSERT_STATUS (write8 r v) k) g"
  unfolding on_ack_def ASSERT_STATUS_def
proof (intro allI impI)
  fix s
  assume k: "\<forall>s. acks s \<longrightarrow> fst (k s) = ERROR_NONE \<and> acks (snd (k s))
        \<and> m_si5351Config (snd (k s)) = g (m_si5351Config s)
        \<and> lastRdivValue (snd (k s)) = lastRdivValue s"
    and a: "acks s"
  obtain e1 s1 where w: "write8 r v s = (e1, s1)" by (cases "write8 r v s") auto
  have "e1 = ERROR_NONE" "acks s1" using write8_acks [OF a, of r v] by (simp_all add: w)
  moreover have "m_si5351Config s1 = m_si5351Config s" using write8_cfg [of r v s] by (simp add: w)
  moreover have "lastRdivValue s1 = lastRdivValue s" using write8_rdiv [of r v s] by (simp add: w)
  ultimately show "fst (case write8 r v s of (e, s') \<Rightarrow> if e = ERROR_NONE then k s' else (e, s')) = ERROR_NONE \<and>
         acks (snd (case write8 r v s of (e, s') \<Rightarrow> if e = ERROR_NONE then k s' else (e, s'))) \<and>
         m_si5351Config (snd (case write8 r v s of (e, s') \<Rightarrow> if e = ERROR_NONE then k s' else (e, s'))) =
         g (m_si5351Config s) \<and>
         lastRdivValue (snd (case write8 r v s of (e, s') \<Rightarrow> if e = ERROR_NONE then k s' else (e, s'))) =
         lastRdivValue s"
    using k by (simp add: w)
qed

lemma oa_writeN: "on_ack k g \<Longrightarrow> on_ack (ASSERT_STATUS (writeN b) k) g"
  unfolding on_ack_def ASSERT_STATUS_def
proof (intro allI impI)
  fix s
  assume k: "\<forall>s. acks s \<longrightarrow> fst (k s) = ERROR_NONE \<and> acks (snd (k s))
        \<and> m_si5351Config (snd (k s)) = g (m_si5351Config s)
        \<and> lastRdivValue (snd (k s)) = lastRdivValue s"
    and a: "acks s"
  obtain e1 s1 where w: "writeN b s = (e1, s1)" by (cases "writeN b s") auto
  have "e1 = ERROR_NONE" "acks s1" using writeN_acks [OF a, of b] by (simp_all add: w)
  moreover have "m_si5351Config s1 = m_si5351Config s" using writeN_cfg [of b s] by (simp add: w)
  moreover have "lastRdivValue s1 = lastRdivValue s" using writeN_rdiv [of b s] by (simp add: w)
  ultimately show "fst (case writeN b s of (e, s') \<Rightarrow> if e = ERROR_NONE then k s' else (e, s')) = ERROR_NONE \<and>
         acks (snd (case writeN b s of (e, s') \<Rightarrow> if e = ERROR_NONE then k s' else (e, s'))) \<and>
         m_si5351Config (snd (case writeN b s of (e, s') \<Rightarrow> if e = ERROR_NONE then k s' else (e, s'))) =
         g (m_si5351Config s) \<and>
         lastRdivValue (snd (case writeN b s of (e, s') \<Rightarrow> if e = ERROR_NONE then k s' else (e, s'))) =
         lastRdivValue s"
    using k by (simp add: w)
qed

lemma oa_return: "on_ack (return ERROR_NONE) (\<lambda>c. c)"
  by (simp add: on_ack_def return_def)

lemma oa_done: "on_ack (\<lambda>s. (ERROR_NONE, s\<lparr>m_si5351Config := g (m_si5351Config s)\<rparr>)) g"
  by (simp add: on_ack_def acks_def)

lemma oa_if: "on_ack a g \<Longrightarrow> on_ack b g \<Longrightarrow> on_ack (if c then a else b) g"
  by simp

lemma on_ackD:
  "on_ack f g \<Longrightarrow> acks s \<Longrightarrow>
   fst (f s) = ERROR_NONE \<and> m_si5351Config (snd (f s)) = g (m_si5351Config s)
   \<and> lastRdivValue (snd (f s)) = lastRdivValue s"
  by (simp add: on_ack_def)

lemma oa_store_pll:
  "on_ack (\<lambda>s'. (ERROR_NONE,
        s'\<lparr>m_si5351Config :=
             (if pll = SI5351_PLL_A then
                (m_si5351Config s')
                  \<lparr>plla_configured := True,
                   plla_freq :=
                     to_uint32 pf (of_int \<lfloor>fvco (crystalFreq (m_si5351Config s')) mult num denom\<rfloor>)\<rparr>
              else
                (m_si5351Config s')
                  \<lparr>pllb_configured := True,
                   pllb_freq :=
                     to_uint32 pf (of_int \<lfloor>fvco (crystalFreq (m_si5351Config s')) mult num denom\<rfloor>)\<rparr>)
           \<rparr>)) (store_pll pf pll mult num denom)"
  by (simp add: on_ack_def acks_def store_pll_def)

lemma setupPLL_on_ack:
  assumes "initialised (m_si5351Config s)" "14 < mult" "mult < 91"
    "0 < denom" "num \<le> 0xFFFFF" "denom \<le> 0xFFFFF" "acks s"
  shows "fst (setupPLL pf pll mult num denom s) = ERROR_NONE
    \<and> m_si5351Config (snd (setupPLL pf pll mult num denom s))
         = store_pll pf pll mult num denom (m_si5351Config s)
    \<and> lastRdivValue (snd (setupPLL pf pll mult num denom s)) = lastRdivValue s"
proof -
  obtain P1 P2 P3 where P: "setupPLL_P pf mult num denom = (P1, P2, P3)"
    by (cases "setupPLL_P pf mult num denom") auto
  show ?thesis
    unfolding setupPLL_def using assms(1-6)
    apply (simp only: ASSERT_def if_True P prod.case Let_def simp_thms)
    apply (rule on_ackD [where s = s, OF _ assms(7)])
    apply (intro oa_write8 oa_store_pll)
    done
qed

lemma setupMultisynth_on_ack:
  assumes "initialised (m_si5351Config s)" "output < 3" "3 < div'" "div' < 2049"
    "0 < denom" "num \<le> 0xFFFFF" "denom \<le> 0xFFFFF"
    "pll_configured pllSource (m_si5351Config s)" "acks s"
  shows "fst (setupMultisynth pf output pllSource div' num denom s) = ERROR_NONE
    \<and> m_si5351Config (snd (setupMultisynth pf output pllSource div' num denom s))
         = (\<lambda>c. c) (m_si5351Config s)
    \<and> lastRdivValue (snd (setupMultisynth pf output pllSource div' num denom s)) = lastRdivValue s"
proof -
  define buf where "buf = sendBuffer
      (if output = 0 then SI5351_REGISTER_42_MULTISYNTH0_PARAMETERS_1
       else if output = 1 then SI5351_REGISTER_50_MULTISYNTH1_PARAMETERS_1
       else if output = 2 then SI5351_REGISTER_58_MULTISYNTH2_PARAMETERS_1
       else 0)
      (lastRdivValue s (unat output)) (setupMultisynth_P pf div' num denom)"
  show ?thesis
    unfolding setupMultisynth_def pll_configured_def [symmetric] using assms(1-8)
    apply (simp only: ASSERT_def if_True Let_def simp_thms)
    apply (fold buf_def)
    apply (rule on_ackD [where s = s, OF _ assms(9)])
    apply (intro oa_writeN oa_write8 oa_return oa_if)
    done
qed

subsection \<open>The third byte of the burst\<close>

lemma lt8: "n < (8::nat) \<Longrightarrow> n \<in> {0, 1, 2, 3, 4, 5, 6, 7}"
  by auto

lemma byte3_high:
  fixes P1 :: "32 word" and d :: "8 word"
  shows "(ucast (drop_bit 16 (P1 AND 0x30000) OR ucast (push_bit 4 (d AND 0x07) :: 8 word)) :: 8 word) AND 0xF0
         = push_bit 4 (d AND 0x07)"
proof (rule bit_word_eqI)
  fix n :: nat
  assume "n < LENGTH(8)"
  then have "n < 8" by simp
  from lt8 [OF this]
  show "bit ((ucast (drop_bit 16 (P1 AND 0x30000) OR ucast (push_bit 4 (d AND 0x07) :: 8 word)) :: 8 word) AND 0xF0) n
         = bit (push_bit 4 (d AND 0x07)) n"
    by (elim insertE emptyE) (simp_all add: bit_simps)
qed

lemma byte3_low:
  fixes P1 :: "32 word" and d :: "8 word"
  shows "(ucast (drop_bit 16 (P1 AND 0x30000) OR ucast (push_bit 4 (d AND 0x07) :: 8 word)) :: 8 word) AND 0x0F
         = ucast (drop_bit 16 (P1 AND 0x30000))"
proof (rule bit_word_eqI)
  fix n :: nat
  assume "n < LENGTH(8)"
  then have "n < 8" by simp
  from lt8 [OF this]
  show "bit ((ucast (drop_bit 16 (P1 AND 0x30000) OR ucast (push_bit 4 (d AND 0x07) :: 8 word)) :: 8 word) AND 0x0F) n
         = bit (ucast (drop_bit 16 (P1 AND 0x30000)) :: 8 word) n"
    by (elim insertE emptyE) (simp_all add: bit_simps)
qed


lemma sendBuffer_3:
  "sendBuffer base r (P1, P2, P3) ! 3 = ucast (drop_bit 16 (P1 AND 0x30000) OR ucast r)"
  by (simp add: sendBuffer_def)

lemma setupRdiv_ok:
  assumes "setupRdiv output rdiv s = (ERROR_NONE, s1)"
  shows "output < 3" and "lastRdivValue s1 (unat output) = push_bit 4 (rdiv AND 0x07)"
    and "m_si5351Config s1 = m_si5351Config s"
proof -
  show o: "output < 3"
    using assms by (cases "output < 3") (simp_all add: setupRdiv_def ASSERT_def)
  show "lastRdivValue s1 (unat output) = push_bit 4 (rdiv AND 0x07)"
    using assms o
    by (auto simp: setupRdiv_def ASSERT_def Let_def read8_def write8_def i2c_write_def
        i2c_write_then_read_def split: if_splits)
  show "m_si5351Config s1 = m_si5351Config s"
    using assms o
    by (auto simp: setupRdiv_def ASSERT_def Let_def read8_def write8_def i2c_write_def
        i2c_write_then_read_def split: if_splits)
qed

lemma setupMultisynth_burst:
  assumes "initialised (m_si5351Config s)" "output < 3" "3 < div'" "div' < 2049"
    "0 < denom" "num \<le> 0xFFFFF" "denom \<le> 0xFFFFF"
    "pll_configured pllSource (m_si5351Config s)"
  shows "\<exists>base. sent (i2c_dev (snd (setupMultisynth pf output pllSource div' num denom s)))
           ! length (sent (i2c_dev s))
         = Write (sendBuffer base (lastRdivValue s (unat output)) (setupMultisynth_P pf div' num denom))"
    and "lastRdivValue (snd (setupMultisynth pf output pllSource div' num denom s)) = lastRdivValue s"
  using assms
  by (auto simp: setupMultisynth_def pll_configured_def ASSERT_def ASSERT_STATUS_def Let_def
      return_def writeN_def write8_def i2c_write_def nth_append split: if_splits)

subsection \<open>Exact cases of the floating-point operations\<close>

lemma f32_nat: "n < 2 ^ 24 \<Longrightarrow> f32 (of_nat n) = of_nat n"
  unfolding f32_def by (rule fl_of_nat)

lemma f32_0: "f32 0 = 0"
  by (simp add: f32_def fl_def)

lemma fD_int: "24 \<le> floor_prec pf \<Longrightarrow> \<bar>n\<bar> < 2 ^ 24 \<Longrightarrow> fD pf (of_int n) = of_int n"
proof -
  assume p: "24 \<le> floor_prec pf" and n: "\<bar>n\<bar> < 2 ^ 24"
  have "(2::int) ^ 24 \<le> 2 ^ floor_prec pf" using p by (rule power_increasing) simp
  with n have "\<bar>n\<bar> < 2 ^ floor_prec pf" by simp
  then show ?thesis unfolding fD_def by (rule fl_of_int)
qed

lemma to_uint32_int: "0 \<le> n \<Longrightarrow> n < 2 ^ 32 \<Longrightarrow> to_uint32 pf (of_int n) = word_of_int n"
  by (simp add: to_uint32_def trunc_def)

lemma fdiv_0: "fdiv 0 denom = 0"
  by (simp add: fdiv_def f32_0)

lemma unat_20bit: "(w :: 32 word) \<le> 0xFFFFF \<Longrightarrow> unat w < 2 ^ 24"
proof -
  assume "w \<le> 0xFFFFF"
  then have "unat w \<le> unat (0xFFFFF :: 32 word)" by (simp add: word_le_nat_alt)
  then show ?thesis by simp
qed

lemma f32_quot_unit:
  fixes a b :: nat
  assumes "a < b"
  shows "0 \<le> f32 (of_nat a / of_nat b)" and "f32 (of_nat a / of_nat b) \<le> 1"
proof -
  have q0: "(0::rat) \<le> of_nat a / of_nat b" by simp
  show "0 \<le> f32 (of_nat a / of_nat b)" unfolding f32_def using q0 by (rule fl_nonneg)
  show "f32 (of_nat a / of_nat b) \<le> 1"
  proof (cases "a = 0")
    case True
    then show ?thesis by (simp add: f32_0)
  next
    case False
    then have "(0::rat) < of_nat a / of_nat b" using assms by simp
    moreover have "(of_nat a / of_nat b :: rat) \<le> 2 powi 0" using assms by simp
    ultimately have "fl 24 (of_nat a / of_nat b) \<le> 2 powi 0"
      by (rule fl_le_pow2) simp
    then show ?thesis by (simp add: f32_def)
  qed
qed

lemma fdiv_unit:
  assumes "num < denom" "denom \<le> 0xFFFFF"
  shows "0 \<le> fdiv num denom" and "fdiv num denom \<le> 1"
proof -
  have nd: "unat num < unat denom" using assms(1) by (simp add: word_less_nat_alt)
  have d: "unat denom < 2 ^ 24" using assms(2) by (rule unat_20bit)
  have n: "unat num < 2 ^ 24" using nd d by simp
  have e: "fdiv num denom = f32 (of_nat (unat num) / of_nat (unat denom))"
    by (simp only: fdiv_def f32_nat [OF n] f32_nat [OF d])
  show "0 \<le> fdiv num denom" unfolding e using nd by (rule f32_quot_unit)
  show "fdiv num denom \<le> 1" unfolding e using nd by (rule f32_quot_unit)
qed

lemma floor128_bounds:
  assumes "num < denom" "denom \<le> 0xFFFFF"
  shows "0 \<le> floor128 num denom" and "floor128 num denom \<le> 128"
proof -
  note q = fdiv_unit [OF assms]
  have x0: "0 \<le> 128 * fdiv num denom" using q(1) by simp
  have x1: "128 * fdiv num denom \<le> 2 powi 7" using q(2) by simp
  have "0 \<le> f32 (128 * fdiv num denom)" unfolding f32_def using x0 by (rule fl_nonneg)
  then show "0 \<le> floor128 num denom" by (simp add: floor128_def)
  have "f32 (128 * fdiv num denom) \<le> 2 powi 7"
  proof (cases "128 * fdiv num denom = 0")
    case True
    then show ?thesis by (simp add: f32_0)
  next
    case False
    with x0 have "0 < 128 * fdiv num denom" by simp
    then show ?thesis unfolding f32_def using x1 by (rule fl_le_pow2) simp
  qed
  then have "f32 (128 * fdiv num denom) \<le> of_int 128" by simp
  then show "floor128 num denom \<le> 128" unfolding floor128_def by (simp add: floor_le_iff)
qed

lemma P1_frac:
  assumes p: "24 \<le> floor_prec pf" and F: "0 \<le> F" "F \<le> 128" and A: "512 \<le> A" "A \<le> 262144"
  shows "to_uint32 pf (fD pf (fD pf (fD pf (of_int A) + of_int F) - 512)) = word_of_int (A + F - 512)"
proof -
  have 1: "fD pf (of_int A) = of_int A" using p A by (intro fD_int) simp_all
  have 2: "fD pf (of_int A + of_int F) = of_int (A + F)"
    using fD_int [OF p, of "A + F"] F A by simp
  have 3: "fD pf (of_int (A + F) - 512) = of_int (A + F - 512)"
    using fD_int [OF p, of "A + F - 512"] F A by simp
  have "to_uint32 pf (of_int (A + F - 512)) = word_of_int (A + F - 512)"
    using F A by (intro to_uint32_int) simp_all
  then show ?thesis by (simp only: 1 2 3)
qed

lemma unat_word_of_int_32: "0 \<le> n \<Longrightarrow> n < 2 ^ 32 \<Longrightarrow> unat (word_of_int n :: 32 word) = nat n"
  by (simp add: unat_eq_nat_uint uint_word_of_int take_bit_int_eq_self)

lemma mult_range: "14 < (mult :: 8 word) \<Longrightarrow> mult < 91 \<Longrightarrow> 15 \<le> uint mult \<and> uint mult \<le> 90"
  by (simp add: word_less_def)

lemma div_range:
  assumes "3 < (d :: 32 word)" "d < 2049"
  shows "unat (128 * d) = 128 * unat d" and "4 \<le> unat d" and "unat d \<le> 2048"
proof -
  have "unat (3 :: 32 word) < unat d" using assms(1) by (simp only: word_less_nat_alt)
  then show "4 \<le> unat d" by simp
  have "unat d < unat (2049 :: 32 word)" using assms(2) by (simp only: word_less_nat_alt)
  then show u: "unat d \<le> 2048" by simp
  have "unat (128 * d) = (128 * unat d) mod 2 ^ 32"
    by (simp add: unat_word_ariths)
  also have "\<dots> = 128 * unat d" using u by simp
  finally show "unat (128 * d) = 128 * unat d" .
qed

subsection \<open>Values\<close>

lemma fl_numeral: "numeral k < (2::int) ^ p \<Longrightarrow> fl p (numeral k) = numeral k"
  using fl_of_int [of "numeral k" p] by simp

lemma fl_0: "fl p 0 = 0"
  by (simp add: fl_def)

lemma fl_neg1: "fl 53 (- 1) = - 1"
  using fl_of_int [of "- 1" 53] by simp

lemma fl_1: "fl 24 1 = 1"
  using fl_of_int [of 1 24] by simp

lemma ceiling_neg1: "\<lceil>- 1 :: rat\<rceil> = - 1"
  using ceiling_of_int [of "- 1", where ?'a = rat] by simp

lemma fl24_values:
  "fl 24 (520191 / 524287) = 127 / 128"
  "fl 24 66584448 = 66584448"
  "fl 24 66584449 = 66584448"
  "fl 24 25000000 = 25000000"
  "fl 24 2175000000 = 2175000064"
  "fl 24 134217600 = 134217600"
  "fl 24 134219520 = 134219520"
  "fl 24 134219008 = 134219008"
  by code_simp+

lemma floor128_values:
  "floor128 520191 524287 = 127"
  "floor128 1048575 1 = 134217600"
  by (simp_all add: floor128_def fdiv_def f32_def fl_numeral fl_1 fl24_values)

subsection \<open>The stored frequency in integer mode\<close>

lemma f32_exact_nat:
  fixes n m k :: nat
  assumes "n = m * 2 ^ k" "m < 2 ^ 24"
  shows "f32 (of_nat n) = of_nat n"
proof -
  have "\<bar>int m\<bar> < 2 ^ 24" using assms(2) by simp
  then have "fl 24 (of_int (int m) * 2 powi (int k)) = of_int (int m) * 2 powi (int k)"
    by (rule fl_exact)
  moreover have "(of_nat n :: rat) = of_int (int m) * 2 powi (int k)"
    by (simp add: assms(1))
  ultimately show ?thesis by (simp only: f32_def)
qed

lemma fvco_integer:
  "fvco xtal mult 0 1 = f32 (f32 (of_nat (unat xtal)) * of_nat (unat mult))"
proof -
  have m: "unat mult < 2 ^ 24"
  proof -
    have "unat mult < 2 ^ LENGTH(8)" by (rule unsigned_less)
    then show ?thesis by simp
  qed
  have 1: "f32 (of_nat (unat mult)) = of_nat (unat mult)" using m by (rule f32_nat)
  have 2: "f32 (of_nat (unat mult) + fdiv 0 1) = of_nat (unat mult)"
    by (simp only: fdiv_0 add_0_right 1)
  show ?thesis by (simp only: fvco_def 1 2)
qed

lemma fvco_integer_exact:
  fixes c j m k :: nat
  assumes "unat xtal = c * 2 ^ j" "c < 2 ^ 24"
    and "unat xtal * unat mult = m * 2 ^ k" "m < 2 ^ 24"
  shows "fvco xtal mult 0 1 = of_nat (unat xtal * unat mult)"
proof -
  have 1: "f32 (of_nat (unat xtal)) = of_nat (unat xtal)"
    using assms(1,2) by (rule f32_exact_nat)
  have 2: "f32 (of_nat (unat xtal * unat mult)) = of_nat (unat xtal * unat mult)"
    using assms(3,4) by (rule f32_exact_nat)
  have "fvco xtal mult 0 1 = f32 (of_nat (unat xtal) * of_nat (unat mult))"
    by (simp only: fvco_integer 1)
  also have "\<dots> = f32 (of_nat (unat xtal * unat mult))"
    by (simp only: of_nat_mult)
  finally show ?thesis by (simp only: 2)
qed

lemma to_uint32_nat:
  fixes n :: nat
  assumes "n < 2 ^ 32"
  shows "unat (to_uint32 pf (of_int (int n))) = n"
proof -
  have i: "int n < 2 ^ 32" using assms by simp
  have "to_uint32 pf (of_int (int n)) = word_of_int (int n)"
    using i by (intro to_uint32_int) simp_all
  moreover have "unat (word_of_int (int n) :: 32 word) = nat (int n)"
    using i by (intro unat_word_of_int_32) simp_all
  ultimately show ?thesis by (simp only: nat_int)
qed

lemma store_pll_sel:
  "pll_configured pll (store_pll pf pll mult num denom c)"
  "pll_freq pll (store_pll pf pll mult num denom c)
     = to_uint32 pf (of_int \<lfloor>fvco (crystalFreq c) mult num denom\<rfloor>)"
  by (simp_all add: store_pll_def pll_configured_def pll_freq_def)

subsection \<open>The integer branch of setupPLL and the formulas\<close>

lemma setupPLL_P_integer_branch:
  "setupPLL_P pf mult 0 denom
     = (word_of_int (spec_P1 (unat mult) 0 (unat denom)),
        word_of_int (spec_P2 (unat mult) 0 (unat denom)),
        word_of_int (spec_P3 (unat mult) 0 (unat denom)))"
  by (simp add: setupPLL_P_def spec_P1_def spec_P2_def spec_P3_def)

lemma spec_P2_denom_1: "spec_P2 a b 1 = 0"
  by (simp add: spec_P2_def)

section \<open>The claims\<close>

text \<open>
  C1, as stated, fails for the stored frequency. \<open>fvco\<close> is a \<open>float\<close>, and
  \<open>25000000 * 87 = 2175000000\<close> needs 25 bits of significand: on the 25 MHz crystal
  \<open>setupPLL(PLL_A, 87, 0, 1)\<close> succeeds and stores \<open>2175000064\<close>.
\<close>

theorem stored_frequency_counterexample:
  "initialised (m_si5351Config (ready (bus_failing [] 0)))
   \<and> acks (ready (bus_failing [] 0))
   \<and> crystalFreq (m_si5351Config (ready (bus_failing [] 0))) = 25000000
   \<and> fst (setupPLL binary32 SI5351_PLL_A 87 0 1 (ready (bus_failing [] 0))) = ERROR_NONE
   \<and> plla_configured
        (m_si5351Config (snd (setupPLL binary32 SI5351_PLL_A 87 0 1 (ready (bus_failing [] 0)))))
   \<and> plla_freq
        (m_si5351Config (snd (setupPLL binary32 SI5351_PLL_A 87 0 1 (ready (bus_failing [] 0)))))
       = 2175000064
   \<and> (25000000 * 87 :: nat) = 2175000000"
proof -
  let ?s = "ready (bus_failing [] 0)"
  have i: "initialised (m_si5351Config ?s)" by (simp add: fixtures)
  have a: "acks ?s" by (simp add: fixtures acks_def)
  have x: "crystalFreq (m_si5351Config ?s) = 25000000" by (simp add: fixtures)
  have m1: "(14 :: 8 word) < 87" and m2: "(87 :: 8 word) < 91" by simp_all
  have v: "to_uint32 binary32 (of_int \<lfloor>fvco 25000000 87 0 1\<rfloor>) = 2175000064"
    by (simp add: fvco_def fdiv_def f32_def fl_numeral fl_0 fl_1 fl24_values to_uint32_def trunc_def)
  from setupPLL_on_ack [OF i m1 m2 _ _ _ a, of 1 0 binary32 SI5351_PLL_A] i a x v
  show ?thesis by (simp add: store_pll_def)
qed

text \<open>
  C1, amended. On an initialised object and a bus that acknowledges, for every
  multiplier from 15 to 90, \<open>setupPLL(pll, mult, 0, 1)\<close> returns \<open>ERROR_NONE\<close>, computes
  \<open>P1 = 128 * mult - 512\<close>, \<open>P2 = 0\<close>, \<open>P3 = 1\<close>, sets the flag of the selected PLL and
  stores as its frequency the floor of the single-precision product of the crystal
  frequency and the multiplier. When the crystal frequency and the product are numbers
  of binary32 (an integer below \<open>2^24\<close> times a power of two) and the product is below
  \<open>2^32\<close>, the stored frequency is the product itself.
\<close>

theorem setupPLL_integer:
  fixes c j m k :: nat
  assumes "initialised (m_si5351Config s)" and "14 < mult" and "mult < 91" and "acks s"
  shows "fst (setupPLL pf pll mult 0 1 s) = ERROR_NONE
       \<and> uint (fst (setupPLL_P pf mult 0 1)) = 128 * uint mult - 512
       \<and> snd (setupPLL_P pf mult 0 1) = (0, 1)
       \<and> pll_configured pll (m_si5351Config (snd (setupPLL pf pll mult 0 1 s)))
       \<and> pll_freq pll (m_si5351Config (snd (setupPLL pf pll mult 0 1 s)))
           = to_uint32 pf (of_int \<lfloor>f32 (f32 (of_nat (unat (crystalFreq (m_si5351Config s))))
                                        * of_nat (unat mult))\<rfloor>)
       \<and> (unat (crystalFreq (m_si5351Config s)) = c * 2 ^ j \<and> c < 2 ^ 24
            \<and> unat (crystalFreq (m_si5351Config s)) * unat mult = m * 2 ^ k \<and> m < 2 ^ 24
            \<and> unat (crystalFreq (m_si5351Config s)) * unat mult < 2 ^ 32
          \<longrightarrow> unat (pll_freq pll (m_si5351Config (snd (setupPLL pf pll mult 0 1 s))))
               = unat (crystalFreq (m_si5351Config s)) * unat mult)"
proof -
  let ?x = "crystalFreq (m_si5351Config s)"
  let ?s' = "snd (setupPLL pf pll mult 0 1 s)"
  have r: "fst (setupPLL pf pll mult 0 1 s) = ERROR_NONE"
    and cfg: "m_si5351Config ?s' = store_pll pf pll mult 0 1 (m_si5351Config s)"
    using setupPLL_on_ack [OF assms(1-3) _ _ _ assms(4), of 1 0 pf pll] by simp_all
  have P: "setupPLL_P pf mult 0 1 = (word_of_int (128 * uint mult - 512), 0, 1)"
    by (simp add: setupPLL_P_def)
  have mr: "15 \<le> uint mult" "uint mult \<le> 90" using mult_range [OF assms(2,3)] by simp_all
  have u: "uint (word_of_int (128 * uint mult - 512) :: 32 word) = 128 * uint mult - 512"
  proof -
    have "uint (word_of_int (128 * uint mult - 512) :: 32 word)
          = take_bit LENGTH(32) (128 * uint mult - 512)"
      by (rule uint_word_of_int_eq)
    also have "\<dots> = 128 * uint mult - 512"
      using mr by (intro take_bit_int_eq_self) simp_all
    finally show ?thesis .
  qed
  have P1: "uint (fst (setupPLL_P pf mult 0 1)) = 128 * uint mult - 512"
    by (simp only: P fst_conv u)
  have P23: "snd (setupPLL_P pf mult 0 1) = (0, 1)"
    by (simp only: P snd_conv)
  have conf: "pll_configured pll (m_si5351Config ?s')"
    by (simp only: cfg store_pll_sel)
  have fr: "pll_freq pll (m_si5351Config ?s')
           = to_uint32 pf (of_int \<lfloor>f32 (f32 (of_nat (unat ?x)) * of_nat (unat mult))\<rfloor>)"
    by (simp only: cfg store_pll_sel fvco_integer)
  have ex: "unat (pll_freq pll (m_si5351Config ?s')) = unat ?x * unat mult"
    if h: "unat ?x = c * 2 ^ j \<and> c < 2 ^ 24
            \<and> unat ?x * unat mult = m * 2 ^ k \<and> m < 2 ^ 24
            \<and> unat ?x * unat mult < 2 ^ 32"
  proof -
    from h have h1: "unat ?x = c * 2 ^ j" and h2: "c < 2 ^ 24"
      and h3: "unat ?x * unat mult = m * 2 ^ k" and h4: "m < 2 ^ 24"
      and h5: "unat ?x * unat mult < 2 ^ 32" by blast+
    have f: "fvco ?x mult 0 1 = of_nat (unat ?x * unat mult)"
      using h1 h2 h3 h4 by (rule fvco_integer_exact)
    have fl: "\<lfloor>(of_nat (unat ?x * unat mult) :: rat)\<rfloor> = int (unat ?x * unat mult)"
      by (rule floor_of_nat)
    have e: "pll_freq pll (m_si5351Config ?s') = to_uint32 pf (of_int (int (unat ?x * unat mult)))"
      by (simp only: cfg store_pll_sel f fl)
    show ?thesis unfolding e using h5 by (rule to_uint32_nat)
  qed
  show ?thesis using r P1 P23 conf fr ex by blast
qed

theorem setupPLL_integer_witness:
  "initialised (m_si5351Config (ready (bus_failing [] 0)))
   \<and> acks (ready (bus_failing [] 0))
   \<and> fst (setupPLL binary32 SI5351_PLL_A 36 0 1 (ready (bus_failing [] 0))) = ERROR_NONE
   \<and> uint (fst (setupPLL_P binary32 36 0 1)) = 4096
   \<and> snd (setupPLL_P binary32 36 0 1) = (0, 1)
   \<and> pll_configured SI5351_PLL_A
        (m_si5351Config (snd (setupPLL binary32 SI5351_PLL_A 36 0 1 (ready (bus_failing [] 0)))))
   \<and> unat (pll_freq SI5351_PLL_A
        (m_si5351Config (snd (setupPLL binary32 SI5351_PLL_A 36 0 1 (ready (bus_failing [] 0))))))
       = 900000000"
proof -
  let ?s = "ready (bus_failing [] 0)"
  have i: "initialised (m_si5351Config ?s)" by (simp add: fixtures)
  have a: "acks ?s" by (simp add: fixtures acks_def)
  have m1: "(14 :: 8 word) < 36" and m2: "(36 :: 8 word) < 91" by simp_all
  have x: "crystalFreq (m_si5351Config ?s) = 25000000" by (simp add: fixtures)
  have h: "unat (crystalFreq (m_si5351Config ?s)) = 390625 * 2 ^ 6 \<and> (390625 :: nat) < 2 ^ 24
     \<and> unat (crystalFreq (m_si5351Config ?s)) * unat (36 :: 8 word) = 3515625 * 2 ^ 8
     \<and> (3515625 :: nat) < 2 ^ 24
     \<and> unat (crystalFreq (m_si5351Config ?s)) * unat (36 :: 8 word) < 2 ^ 32"
    by (simp add: x)
  note T = setupPLL_integer [OF i m1 m2 a, of binary32 SI5351_PLL_A 390625 6 3515625 8]
  from T have r: "fst (setupPLL binary32 SI5351_PLL_A 36 0 1 ?s) = ERROR_NONE" by blast
  from T have "uint (fst (setupPLL_P binary32 36 0 1)) = 128 * uint (36 :: 8 word) - 512"
    by blast
  then have P: "uint (fst (setupPLL_P binary32 36 0 1)) = 4096" by simp
  from T have Q: "snd (setupPLL_P binary32 36 0 1) = (0, 1)" by blast
  from T have c: "pll_configured SI5351_PLL_A
        (m_si5351Config (snd (setupPLL binary32 SI5351_PLL_A 36 0 1 ?s)))" by blast
  from T h have "unat (pll_freq SI5351_PLL_A
        (m_si5351Config (snd (setupPLL binary32 SI5351_PLL_A 36 0 1 ?s))))
      = unat (crystalFreq (m_si5351Config ?s)) * unat (36 :: 8 word)" by blast
  then have f: "unat (pll_freq SI5351_PLL_A
        (m_si5351Config (snd (setupPLL binary32 SI5351_PLL_A 36 0 1 ?s)))) = 900000000"
    by (simp add: x)
  from i a r P Q c f show ?thesis by blast
qed

text \<open>
  C2. \<open>setupPLL\<close> at \<open>mult = 15\<close>, \<open>num = 520191\<close>, \<open>denom = 524287\<close>. The quotient
  \<open>520191 / 524287\<close> is \<open>127/128 - 1/(128 * 524287)\<close>, which single precision rounds to
  \<open>127/128\<close>; so \<open>floor(128 * ((float)num / (float)denom))\<close> is 127, where
  \<open>floor(128 * 520191 / 524287)\<close> is 126. The code stores \<open>P1 = 1535\<close>, and \<open>P2 = 0\<close>
  when the arithmetic around \<open>floor\<close> is single precision, or the conversion of \<open>-1\<close>
  when it is double precision; the formulas give \<open>P1 = 1534\<close> and \<open>P2 = 524286\<close>. The
  nine writes of \<open>setupPLL\<close> carry the code's values (\<open>1535 = 0x5FF\<close>).
\<close>

theorem pll_fraction_rounded:
  "(520191 :: 32 word) < 524287 \<and> (524287 :: 32 word) \<le> 0xFFFFF
   \<and> floor128 520191 524287 = 127 \<and> (128 * 520191) div 524287 = (126 :: nat)
   \<and> setupPLL_P \<lparr>floor_prec = 24, conv_oor = oor\<rparr> 15 520191 524287 = (1535, 0, 524287)
   \<and> setupPLL_P \<lparr>floor_prec = 53, conv_oor = oor\<rparr> 15 520191 524287 = (1535, oor (- 1), 524287)
   \<and> spec_P1 15 520191 524287 = 1534
   \<and> spec_P2 15 520191 524287 = 524286
   \<and> spec_P3 15 520191 524287 = 524287
   \<and> fst (setupPLL binary32 SI5351_PLL_A 15 520191 524287 (ready (bus_failing [] 0))) = ERROR_NONE
   \<and> sent (i2c_dev (snd (setupPLL binary32 SI5351_PLL_A 15 520191 524287 (ready (bus_failing [] 0)))))
       = [Write [26, 0xFF], Write [27, 0xFF], Write [28, 0], Write [29, 5], Write [30, 0xFF],
          Write [31, 0x70], Write [32, 0], Write [33, 0], Write [177, 0xA0]]"
proof -
  have P: "setupPLL_P \<lparr>floor_prec = 24, conv_oor = oor\<rparr> 15 520191 524287 = (1535, 0, 524287)"
    for oor
    by (simp add: setupPLL_P_def floor128_values fD_def fl_numeral fl24_values fl_0 fl_1
        to_uint32_def trunc_def)
  have Q: "setupPLL_P \<lparr>floor_prec = 53, conv_oor = oor\<rparr> 15 520191 524287
           = (1535, oor (- 1), 524287)"
    by (simp add: setupPLL_P_def floor128_values fD_def fl_numeral fl24_values fl_0 fl_1 fl_neg1
        ceiling_neg1 to_uint32_def trunc_def)
  have S: "spec_P1 15 520191 524287 = 1534 \<and> spec_P2 15 520191 524287 = 524286
     \<and> spec_P3 15 520191 524287 = 524287"
    by (simp add: spec_P1_def spec_P2_def spec_P3_def)
  have R: "fst (setupPLL binary32 SI5351_PLL_A 15 520191 524287 (ready (bus_failing [] 0))) = ERROR_NONE
   \<and> sent (i2c_dev (snd (setupPLL binary32 SI5351_PLL_A 15 520191 524287 (ready (bus_failing [] 0)))))
       = [Write [26, 0xFF], Write [27, 0xFF], Write [28, 0], Write [29, 5], Write [30, 0xFF],
          Write [31, 0x70], Write [32, 0], Write [33, 0], Write [177, 0xA0]]"
    by (simp add: setupPLL_def P [of "\<lambda>t. 0", folded binary32_def] ops regs ready_def
        bus_failing_def)
  show ?thesis using P Q S R floor128_values(1) by simp
qed

text \<open>
  C3. The two special cases are compared with the general formulas. In \<open>setupPLL\<close> the
  integer branch stores \<open>128 * mult - 512\<close>, \<open>num = 0\<close> and \<open>denom\<close>, which is what the
  formulas give at \<open>num = 0\<close>. The closed form of \<open>setupMultisynth\<close> for \<open>denom = 1\<close> is
  evaluated here at \<open>div = 4\<close>, \<open>num = 2\<close>: it stores \<open>P2 = 128 * 2 - 128 = 128\<close>, where
  the formula \<open>128 b - c floor(128 b / c)\<close> gives \<open>0\<close>; \<open>P1\<close> and \<open>P3\<close> agree. The last
  byte of the burst is the 128.
\<close>

theorem multisynth_closed_form_P2:
  "setupMultisynth_P pf 4 2 1 = (256, 128, 1)
   \<and> spec_P1 4 2 1 = 256 \<and> spec_P2 4 2 1 = 0 \<and> spec_P3 4 2 1 = 1
   \<and> setupMultisynth pf 0 SI5351_PLL_A 4 2 1 (ready_plla (bus_failing [] 0))
       = (ERROR_NONE,
          ready_plla ((bus_failing [] 0)
            \<lparr>sent := [Write [42, 0, 1, 0, 1, 0, 0, 0, 128], Write [16, 0x0F]]\<rparr>))"
  by (simp add: setupMultisynth_def setupMultisynth_P_def sendBuffer_def clkControlReg_def
      spec_P1_def spec_P2_def spec_P3_def fixtures ops regs)

text \<open>
  C4. On an initialised object, with a valid numerator and denominator and a bus that
  acknowledges: \<open>setupPLL\<close> returns \<open>ERROR_INVALIDPARAMETER\<close> for the multipliers 14 and 91
  and \<open>ERROR_NONE\<close> for 15 and 90; for a channel below 3 and a configured PLL,
  \<open>setupMultisynth\<close> returns \<open>ERROR_INVALIDPARAMETER\<close> for the dividers 3 and 2049 and
  \<open>ERROR_NONE\<close> for 4 and 2048.
\<close>

theorem range_boundaries:
  assumes "initialised (m_si5351Config s)"
    and "0 < denom" and "num \<le> 0xFFFFF" and "denom \<le> 0xFFFFF"
    and "acks s"
  shows "fst (setupPLL pf pll 14 num denom s) = ERROR_INVALIDPARAMETER
       \<and> fst (setupPLL pf pll 91 num denom s) = ERROR_INVALIDPARAMETER
       \<and> fst (setupPLL pf pll 15 num denom s) = ERROR_NONE
       \<and> fst (setupPLL pf pll 90 num denom s) = ERROR_NONE
       \<and> (output < 3 \<and> pll_configured pll (m_si5351Config s) \<longrightarrow>
           fst (setupMultisynth pf output pll 3 num denom s) = ERROR_INVALIDPARAMETER
         \<and> fst (setupMultisynth pf output pll 2049 num denom s) = ERROR_INVALIDPARAMETER
         \<and> fst (setupMultisynth pf output pll 4 num denom s) = ERROR_NONE
         \<and> fst (setupMultisynth pf output pll 2048 num denom s) = ERROR_NONE)"
proof (intro conjI impI)
  show "fst (setupPLL pf pll 14 num denom s) = ERROR_INVALIDPARAMETER"
    using assms(1) by (simp add: setupPLL_def ASSERT_def)
  show "fst (setupPLL pf pll 91 num denom s) = ERROR_INVALIDPARAMETER"
    using assms(1) by (simp add: setupPLL_def ASSERT_def)
  show "fst (setupPLL pf pll 15 num denom s) = ERROR_NONE"
    using setupPLL_on_ack [OF assms(1) _ _ assms(2-5), of 15 pf pll] by simp
  show "fst (setupPLL pf pll 90 num denom s) = ERROR_NONE"
    using setupPLL_on_ack [OF assms(1) _ _ assms(2-5), of 90 pf pll] by simp
next
  assume "output < 3 \<and> pll_configured pll (m_si5351Config s)"
  then have o: "output < 3" and c: "pll_configured pll (m_si5351Config s)" by simp_all
  show "fst (setupMultisynth pf output pll 3 num denom s) = ERROR_INVALIDPARAMETER"
    using assms(1) o by (simp add: setupMultisynth_def ASSERT_def)
  show "fst (setupMultisynth pf output pll 2049 num denom s) = ERROR_INVALIDPARAMETER"
    using assms(1) o by (simp add: setupMultisynth_def ASSERT_def)
  show "fst (setupMultisynth pf output pll 4 num denom s) = ERROR_NONE"
    using setupMultisynth_on_ack [OF assms(1) o _ _ assms(2-4) c assms(5), of 4 pf] by simp
  show "fst (setupMultisynth pf output pll 2048 num denom s) = ERROR_NONE"
    using setupMultisynth_on_ack [OF assms(1) o _ _ assms(2-4) c assms(5), of 2048 pf] by simp
qed

theorem range_boundaries_witness:
  "initialised (m_si5351Config (ready_plla (bus_failing [] 0)))
   \<and> acks (ready_plla (bus_failing [] 0))
   \<and> pll_configured SI5351_PLL_A (m_si5351Config (ready_plla (bus_failing [] 0)))
   \<and> fst (setupPLL binary32 SI5351_PLL_A 14 0 1 (ready_plla (bus_failing [] 0))) = ERROR_INVALIDPARAMETER
   \<and> fst (setupPLL binary32 SI5351_PLL_A 15 0 1 (ready_plla (bus_failing [] 0))) = ERROR_NONE
   \<and> fst (setupMultisynth binary32 0 SI5351_PLL_A 3 0 1 (ready_plla (bus_failing [] 0))) = ERROR_INVALIDPARAMETER
   \<and> fst (setupMultisynth binary32 0 SI5351_PLL_A 2048 0 1 (ready_plla (bus_failing [] 0))) = ERROR_NONE"
proof -
  let ?s = "ready_plla (bus_failing [] 0)"
  have i: "initialised (m_si5351Config ?s)" by (simp add: fixtures)
  have a: "acks ?s" by (simp add: fixtures acks_def)
  have c: "pll_configured SI5351_PLL_A (m_si5351Config ?s)" by (simp add: fixtures pll_configured_def)
  have o: "(0 :: 8 word) < 3" by simp
  from range_boundaries [OF i _ _ _ a, of 1 0 binary32 SI5351_PLL_A 0] i a c o
  show ?thesis by simp
qed

text \<open>
  C5. On an initialised object, for a channel below 3 and valid divider, numerator and
  denominator: when the PLL named as the source is not configured, \<open>setupMultisynth\<close>
  returns \<open>ERROR_INVALIDPARAMETER\<close> and the object, bus log included, is unchanged, so
  nothing has been written.
\<close>

theorem setupMultisynth_unconfigured_pll:
  assumes "initialised (m_si5351Config s)"
    and "output < 3" and "3 < div'" and "div' < 2049"
    and "0 < denom" and "num \<le> 0xFFFFF" and "denom \<le> 0xFFFFF"
    and "\<not> pll_configured pllSource (m_si5351Config s)"
  shows "setupMultisynth pf output pllSource div' num denom s = (ERROR_INVALIDPARAMETER, s)"
  using assms by (simp add: setupMultisynth_def ASSERT_def pll_configured_def)

theorem setupMultisynth_unconfigured_pll_witness:
  "initialised (m_si5351Config (ready (bus_failing [] 0)))
   \<and> \<not> pll_configured SI5351_PLL_A (m_si5351Config (ready (bus_failing [] 0)))
   \<and> setupMultisynth binary32 0 SI5351_PLL_A 6 0 1 (ready (bus_failing [] 0))
       = (ERROR_INVALIDPARAMETER, ready (bus_failing [] 0))
   \<and> sent (i2c_dev (snd (setupMultisynth binary32 0 SI5351_PLL_A 6 0 1 (ready (bus_failing [] 0))))) = []"
proof -
  have i: "initialised (m_si5351Config (ready (bus_failing [] 0)))"
    by (simp add: ready_def)
  have n: "\<not> pll_configured SI5351_PLL_A (m_si5351Config (ready (bus_failing [] 0)))"
    by (simp add: ready_def pll_configured_def)
  have r: "setupMultisynth binary32 0 SI5351_PLL_A 6 0 1 (ready (bus_failing [] 0))
       = (ERROR_INVALIDPARAMETER, ready (bus_failing [] 0))"
    using i n by (intro setupMultisynth_unconfigured_pll) simp_all
  show ?thesis using i n r by (simp add: ready_def bus_failing_def)
qed

text \<open>
  C6, as stated, fails in two places. After \<open>begin\<close> has failed to detect the device on
  a new object, \<open>enableSpreadSpectrum\<close> and \<open>setupRdiv\<close> still run their bus
  transactions and return \<open>ERROR_NONE\<close>: neither checks \<open>initialised\<close>. And when
  \<open>begin\<close> fails on an object that an earlier \<open>begin\<close> had initialised (here the second
  probe is transaction 13), \<open>initialised\<close> stays true and \<open>enableOutputs\<close> succeeds.
\<close>

theorem not_gated_counterexample:
  "fst (begin_SI5351 (Adafruit_SI5351_new 0xC0 (bus_failing [0] 0))) = ERROR_I2C_DEVICENOTFOUND
   \<and> \<not> initialised (m_si5351Config (snd (begin_SI5351 (Adafruit_SI5351_new 0xC0 (bus_failing [0] 0)))))
   \<and> fst (enableSpreadSpectrum True (snd (begin_SI5351 (Adafruit_SI5351_new 0xC0 (bus_failing [0] 0)))))
       = ERROR_NONE
   \<and> fst (setupRdiv 0 1 (snd (begin_SI5351 (Adafruit_SI5351_new 0xC0 (bus_failing [0] 0)))))
       = ERROR_NONE
   \<and> fst (begin_SI5351 (snd (begin_SI5351 (Adafruit_SI5351_new 0xC0 (bus_failing [13] 0)))))
       = ERROR_I2C_DEVICENOTFOUND
   \<and> initialised (m_si5351Config
        (snd (begin_SI5351 (snd (begin_SI5351 (Adafruit_SI5351_new 0xC0 (bus_failing [13] 0)))))))
   \<and> fst (enableOutputs True
        (snd (begin_SI5351 (snd (begin_SI5351 (Adafruit_SI5351_new 0xC0 (bus_failing [13] 0)))))))
       = ERROR_NONE"
  by (simp add: begin_SI5351_def enableSpreadSpectrum_def setupRdiv_def enableOutputs_def
      fixtures ops regs)

text \<open>
  C6, amended. When \<open>begin\<close> is called on an object that is not initialised and the
  probe is not acknowledged, \<open>begin\<close> returns \<open>ERROR_I2C_DEVICENOTFOUND\<close>, \<open>initialised\<close>
  is still false, and \<open>setupPLL\<close>, \<open>setupMultisynth\<close>, \<open>enableOutputs\<close> and
  \<open>setClockBuilderData\<close> each return \<open>ERROR_DEVICENOTINITIALISED\<close> and leave the object,
  bus log included, as it is.
\<close>

theorem failed_detection_gates:
  assumes "\<not> initialised (m_si5351Config s)"
    and "\<not> ack (i2c_dev s) (length (sent (i2c_dev s)))"
  shows "fst (begin_SI5351 s) = ERROR_I2C_DEVICENOTFOUND
    \<and> \<not> initialised (m_si5351Config (snd (begin_SI5351 s)))
    \<and> setupPLL pf pll mult num denom (snd (begin_SI5351 s))
          = (ERROR_DEVICENOTINITIALISED, snd (begin_SI5351 s))
    \<and> setupMultisynth pf output pll div' num denom (snd (begin_SI5351 s))
          = (ERROR_DEVICENOTINITIALISED, snd (begin_SI5351 s))
    \<and> enableOutputs enabled (snd (begin_SI5351 s))
          = (ERROR_DEVICENOTINITIALISED, snd (begin_SI5351 s))
    \<and> setClockBuilderData regs (snd (begin_SI5351 s))
          = (ERROR_DEVICENOTINITIALISED, snd (begin_SI5351 s))"
  using assms
  by (simp add: begin_SI5351_def i2c_begin_def setupPLL_def setupMultisynth_def
      enableOutputs_def setClockBuilderData_def ASSERT_def)

theorem failed_detection_gates_witness:
  "\<not> initialised (m_si5351Config (Adafruit_SI5351_new 0xC0 (bus_failing [0] 0)))
   \<and> \<not> ack (bus_failing [0] 0) 0
   \<and> fst (begin_SI5351 (Adafruit_SI5351_new 0xC0 (bus_failing [0] 0))) = ERROR_I2C_DEVICENOTFOUND
   \<and> fst (setupPLL binary32 SI5351_PLL_A 36 0 1
            (snd (begin_SI5351 (Adafruit_SI5351_new 0xC0 (bus_failing [0] 0)))))
       = ERROR_DEVICENOTINITIALISED"
proof -
  let ?s = "Adafruit_SI5351_new 0xC0 (bus_failing [0] 0)"
  have a: "\<not> initialised (m_si5351Config ?s)" by (simp add: fixtures)
  have b: "\<not> ack (i2c_dev ?s) (length (sent (i2c_dev ?s)))" by (simp add: fixtures)
  have c: "\<not> ack (bus_failing [0] 0) 0" by (simp add: fixtures)
  from failed_detection_gates [OF a b, of binary32 SI5351_PLL_A 36 0 1] a c
  show ?thesis by simp
qed

text \<open>
  C7, as stated, fails: after \<open>setupRdiv(0, 1)\<close> the stored field is \<open>0x10\<close>, and the
  third register byte of the burst that \<open>setupMultisynth(0, PLL_A, 4, 0, 1)\<close> sends is
  \<open>0x10\<close>, whose low nibble is \<open>0\<close>. The field sits in the high nibble.
\<close>

theorem rdiv_low_nibble_counterexample:
  "fst (setupRdiv 0 1 (ready_plla (bus_failing [] 0))) = ERROR_NONE
   \<and> lastRdivValue (snd (setupRdiv 0 1 (ready_plla (bus_failing [] 0)))) 0 = 0x10
   \<and> setupMultisynth_P binary32 4 0 1 = (0, 0, 1)
   \<and> fst (setupMultisynth binary32 0 SI5351_PLL_A 4 0 1
            (snd (setupRdiv 0 1 (ready_plla (bus_failing [] 0))))) = ERROR_NONE
   \<and> sent (i2c_dev (snd (setupMultisynth binary32 0 SI5351_PLL_A 4 0 1
            (snd (setupRdiv 0 1 (ready_plla (bus_failing [] 0)))))))
       = [WriteThenRead 44, Write [44, 0x10], Write [42, 0, 1, 0x10, 0, 0, 0, 0, 0], Write [16, 0x4F]]
   \<and> (0x10 :: 8 word) AND 0x0F \<noteq> lastRdivValue (snd (setupRdiv 0 1 (ready_plla (bus_failing [] 0)))) 0"
  by (simp add: setupRdiv_def setupMultisynth_def setupMultisynth_P_def sendBuffer_def
      clkControlReg_def fixtures ops regs)

text \<open>
  C7, amended. After a \<open>setupRdiv\<close> that returned \<open>ERROR_NONE\<close>, a \<open>setupMultisynth\<close> on
  the same channel that passes its checks sends, as its first transaction, a burst of
  the base address and eight register bytes. In the third register byte the high nibble
  is the field that \<open>setupRdiv\<close> stored, \<open>(div AND 7) << 4\<close>, and the low nibble is bits
  17:16 of \<open>P1\<close>; \<open>lastRdivValue\<close> of the channel still holds the field afterwards.
\<close>

theorem rdiv_in_burst:
  assumes "setupRdiv output rdiv s = (ERROR_NONE, s1)"
    and "initialised (m_si5351Config s1)" and "3 < div'" and "div' < 2049"
    and "0 < denom" and "num \<le> 0xFFFFF" and "denom \<le> 0xFFFFF"
    and "pll_configured pllSource (m_si5351Config s1)"
  shows "(\<exists>buf. sent (i2c_dev (snd (setupMultisynth pf output pllSource div' num denom s1)))
              ! length (sent (i2c_dev s1)) = Write buf
           \<and> length buf = 9
           \<and> buf ! 3 AND 0xF0 = push_bit 4 (rdiv AND 0x07)
           \<and> buf ! 3 AND 0x0F
               = ucast (drop_bit 16 (fst (setupMultisynth_P pf div' num denom) AND 0x30000)))
       \<and> lastRdivValue (snd (setupMultisynth pf output pllSource div' num denom s1)) (unat output)
           = push_bit 4 (rdiv AND 0x07)"
proof (intro conjI)
  note r = setupRdiv_ok [OF assms(1)]
  obtain P1 P2 P3 where P: "setupMultisynth_P pf div' num denom = (P1, P2, P3)"
    by (cases "setupMultisynth_P pf div' num denom") auto
  obtain base where b: "sent (i2c_dev (snd (setupMultisynth pf output pllSource div' num denom s1)))
           ! length (sent (i2c_dev s1))
         = Write (sendBuffer base (lastRdivValue s1 (unat output)) (setupMultisynth_P pf div' num denom))"
    using setupMultisynth_burst(1) [OF assms(2) r(1) assms(3-8)] by blast
  let ?buf = "sendBuffer base (push_bit 4 (rdiv AND 0x07)) (P1, P2, P3)"
  have "length ?buf = 9" by (simp add: sendBuffer_def)
  moreover have "?buf ! 3 AND 0xF0 = push_bit 4 (rdiv AND 0x07)"
    by (simp only: sendBuffer_3 byte3_high)
  moreover have "?buf ! 3 AND 0x0F = ucast (drop_bit 16 (P1 AND 0x30000))"
    by (simp only: sendBuffer_3 byte3_low)
  ultimately show "\<exists>buf. sent (i2c_dev (snd (setupMultisynth pf output pllSource div' num denom s1)))
              ! length (sent (i2c_dev s1)) = Write buf
           \<and> length buf = 9
           \<and> buf ! 3 AND 0xF0 = push_bit 4 (rdiv AND 0x07)
           \<and> buf ! 3 AND 0x0F
               = ucast (drop_bit 16 (fst (setupMultisynth_P pf div' num denom) AND 0x30000))"
    using b by (simp add: r(2) P)
  show "lastRdivValue (snd (setupMultisynth pf output pllSource div' num denom s1)) (unat output)
           = push_bit 4 (rdiv AND 0x07)"
    using setupMultisynth_burst(2) [OF assms(2) r(1) assms(3-8)] by (simp add: r(2))
qed

theorem rdiv_in_burst_witness:
  "setupRdiv 2 5 (ready_plla (bus_failing [] 0))
     = (ERROR_NONE, snd (setupRdiv 2 5 (ready_plla (bus_failing [] 0))))
   \<and> (\<exists>buf. sent (i2c_dev (snd (setupMultisynth binary32 2 SI5351_PLL_A 2048 0 1
                    (snd (setupRdiv 2 5 (ready_plla (bus_failing [] 0)))))))
              ! length (sent (i2c_dev (snd (setupRdiv 2 5 (ready_plla (bus_failing [] 0)))))) = Write buf
           \<and> length buf = 9
           \<and> buf ! 3 AND 0xF0 = push_bit 4 (5 AND 0x07)
           \<and> buf ! 3 AND 0x0F
               = ucast (drop_bit 16 (fst (setupMultisynth_P binary32 2048 0 1) AND 0x30000)))"
proof -
  let ?s = "ready_plla (bus_failing [] 0)"
  let ?s1 = "snd (setupRdiv 2 5 ?s)"
  have r: "setupRdiv 2 5 ?s = (ERROR_NONE, ?s1)"
    by (simp add: setupRdiv_def fixtures ops regs)
  have i: "initialised (m_si5351Config ?s1)"
    by (simp add: setupRdiv_def fixtures ops regs)
  have c: "pll_configured SI5351_PLL_A (m_si5351Config ?s1)"
    by (simp add: setupRdiv_def fixtures ops regs pll_configured_def)
  from rdiv_in_burst [OF r i _ _ _ _ _ c, of 2048 1 0 binary32] r
  show ?thesis by simp
qed

text \<open>
  C8. Two results are dropped. In \<open>setupRdiv\<close> the status of \<open>read8\<close> is not looked at:
  when the read (transaction 0 here) fails and the write succeeds, \<open>setupRdiv\<close> returns
  \<open>ERROR_NONE\<close>, having written a byte made from whatever the buffer held (\<open>0xAB\<close> here,
  giving \<open>0x1B\<close>). In \<open>begin\<close> the result of \<open>enableSpreadSpectrum(false)\<close> is not looked
  at: when its read (transaction 11) fails, \<open>begin\<close> still returns \<open>ERROR_NONE\<close> and
  sets \<open>initialised\<close>.
\<close>

theorem unchecked_read_in_setupRdiv:
  "\<not> ack (bus_failing [0] 0xAB) 0
   \<and> fst (setupRdiv 0 1 (ready (bus_failing [0] 0xAB))) = ERROR_NONE
   \<and> sent (i2c_dev (snd (setupRdiv 0 1 (ready (bus_failing [0] 0xAB)))))
       = [WriteThenRead 44, Write [44, 0x1B]]
   \<and> \<not> ack (bus_failing [11] 0) 11
   \<and> begin_SI5351 (Adafruit_SI5351_new 0xC0 (bus_failing [11] 0))
       = (ERROR_NONE, ready ((bus_failing [11] 0)
           \<lparr>sent := [Probe, Write [3, 0xFF], Write [16, 0x80], Write [17, 0x80], Write [18, 0x80],
                     Write [19, 0x80], Write [20, 0x80], Write [21, 0x80], Write [22, 0x80],
                     Write [23, 0x80], Write [183, 0xC0], WriteThenRead 149]\<rparr>))"
  by (simp add: setupRdiv_def begin_SI5351_def enableSpreadSpectrum_def fixtures ops regs)

text \<open>
  C9, as stated, fails. The inputs \<open>num = 1048575\<close>, \<open>denom = 1\<close> are in the documented
  domains, and give \<open>P1 = 134217600\<close> and \<open>P2 = 134217472\<close> in \<open>setupMultisynth\<close> with
  divider 4, and \<open>P1 = 134219008\<close> in \<open>setupPLL\<close> with multiplier 15. With a proper
  fraction, \<open>P2\<close> of the fractional branch can still leave its 20 bits: at
  \<open>520191 / 524287\<close> in double precision the value converted is \<open>-1\<close>, which a
  conversion that wraps turns into \<open>0xFFFFFFFF\<close>.
\<close>

theorem fields_overflow_counterexample:
  "(1048575 :: 32 word) \<le> 0xFFFFF \<and> (0 :: 32 word) < 1 \<and> (1 :: 32 word) \<le> 0xFFFFF
   \<and> setupMultisynth_P binary32 4 1048575 1 = (134217600, 134217472, 1)
   \<and> \<not> unat (134217600 :: 32 word) < 2 ^ 18
   \<and> \<not> unat (134217472 :: 32 word) < 2 ^ 20
   \<and> setupPLL_P binary32 15 1048575 1 = (134219008, 0, 1)
   \<and> \<not> unat (134219008 :: 32 word) < 2 ^ 18
   \<and> setupPLL_P binary64 15 520191 524287 = (1535, 0xFFFFFFFF, 524287)
   \<and> \<not> unat (0xFFFFFFFF :: 32 word) < 2 ^ 20"
  by (simp add: setupMultisynth_P_def setupPLL_P_def floor128_values fD_def fl_numeral
      fl24_values fl_0 fl_1 fl_neg1 ceiling_neg1 to_uint32_def trunc_def binary32_def binary64_def)

text \<open>
  C9, amended. For a numerator below the denominator and a denominator of at most
  1048575, with floating-point types of at least 24 bits of significand: \<open>setupPLL\<close> with
  a multiplier from 15 to 90 and \<open>setupMultisynth\<close> with a divider from 4 to 2048 compute
  \<open>P1 < 2^18\<close> and \<open>P3 < 2^20\<close>, and \<open>P2 = 0\<close> when the numerator is 0.
\<close>

theorem fields_fit:
  assumes "num < denom" and "denom \<le> 0xFFFFF" and "24 \<le> floor_prec pf"
  shows "(14 < mult \<and> mult < 91 \<longrightarrow>
            (case setupPLL_P pf mult num denom of (P1, P2, P3) \<Rightarrow>
               unat P1 < 2 ^ 18 \<and> unat P3 < 2 ^ 20 \<and> (num = 0 \<longrightarrow> P2 = 0)))
       \<and> (3 < div' \<and> div' < 2049 \<longrightarrow>
            (case setupMultisynth_P pf div' num denom of (P1, P2, P3) \<Rightarrow>
               unat P1 < 2 ^ 18 \<and> unat P3 < 2 ^ 20 \<and> (num = 0 \<longrightarrow> P2 = 0)))"
proof (intro conjI impI)
  note F = floor128_bounds [OF assms(1,2)]
  have d: "unat denom < 2 ^ 20"
  proof -
    have "unat denom \<le> unat (0xFFFFF :: 32 word)" using assms(2) by (simp only: word_le_nat_alt)
    then show ?thesis by simp
  qed
  {
    assume "14 < mult \<and> mult < 91"
    then have m: "15 \<le> uint mult" "uint mult \<le> 90" using mult_range [of mult] by simp_all
    show "case setupPLL_P pf mult num denom of (P1, P2, P3) \<Rightarrow>
               unat P1 < 2 ^ 18 \<and> unat P3 < 2 ^ 20 \<and> (num = 0 \<longrightarrow> P2 = 0)"
    proof (cases "num = 0")
      case True
      have "unat (word_of_int (128 * uint mult - 512) :: 32 word) = nat (128 * uint mult - 512)"
        using m by (intro unat_word_of_int_32) simp_all
      then show ?thesis using True m d by (simp add: setupPLL_P_def)
    next
      case False
      have "to_uint32 pf (fD pf (fD pf (fD pf (of_int (128 * uint mult)) + of_int (floor128 num denom)) - 512))
            = word_of_int (128 * uint mult + floor128 num denom - 512)"
        using assms(3) F m by (intro P1_frac) simp_all
      moreover have "unat (word_of_int (128 * uint mult + floor128 num denom - 512) :: 32 word)
            = nat (128 * uint mult + floor128 num denom - 512)"
        using m F by (intro unat_word_of_int_32) simp_all
      ultimately show ?thesis using False m F d by (simp add: setupPLL_P_def)
    qed
  }
  {
    assume "3 < div' \<and> div' < 2049"
    then have dv: "unat (128 * div') = 128 * unat div'" "4 \<le> unat div'" "unat div' \<le> 2048"
      using div_range [of div'] by simp_all
    show "case setupMultisynth_P pf div' num denom of (P1, P2, P3) \<Rightarrow>
               unat P1 < 2 ^ 18 \<and> unat P3 < 2 ^ 20 \<and> (num = 0 \<longrightarrow> P2 = 0)"
    proof (cases "num = 0")
      case True
      have "(512 :: 32 word) \<le> 128 * div'"
        using dv by (simp add: word_le_nat_alt)
      then have "unat (128 * div' - 512) = unat (128 * div') - unat (512 :: 32 word)"
        by (rule unat_sub)
      then have "unat (128 * div' - 512) = 128 * unat div' - 512"
        by (simp add: dv(1))
      then show ?thesis using True dv d by (simp add: setupMultisynth_P_def)
    next
      case False
      have d1: "denom \<noteq> 1"
      proof
        assume "denom = 1"
        with assms(1) have "unat num < 1" by (simp add: word_less_nat_alt)
        then have "num = 0" by (simp add: unat_eq_0)
        with False show False by simp
      qed
      have dvi1: "4 \<le> int (unat div')" using dv(2) by linarith
      have dvi2: "int (unat div') \<le> 2048" using dv(3) by linarith
      note dvi = dvi1 dvi2
      have e: "(of_nat (unat (128 * div')) :: rat) = of_int (128 * int (unat div'))"
        by (simp only: dv(1))
      have "to_uint32 pf (fD pf (fD pf (fD pf (of_int (128 * int (unat div'))) + of_int (floor128 num denom)) - 512))
            = word_of_int (128 * int (unat div') + floor128 num denom - 512)"
        using assms(3) F dvi by (intro P1_frac) simp_all
      moreover have "unat (word_of_int (128 * int (unat div') + floor128 num denom - 512) :: 32 word)
            = nat (128 * int (unat div') + floor128 num denom - 512)"
        using dvi F by (intro unat_word_of_int_32) simp_all
      ultimately show ?thesis using False dvi F d d1 by (simp only: setupMultisynth_P_def e) simp
    qed
  }
qed

theorem fields_fit_witness:
  "(1 :: 32 word) < 3 \<and> (3 :: 32 word) \<le> 0xFFFFF \<and> 24 \<le> floor_prec binary32
   \<and> (case setupPLL_P binary32 15 1 3 of (P1, P2, P3) \<Rightarrow>
         unat P1 < 2 ^ 18 \<and> unat P3 < 2 ^ 20 \<and> ((1 :: 32 word) = 0 \<longrightarrow> P2 = 0))
   \<and> (case setupMultisynth_P binary32 2048 1 3 of (P1, P2, P3) \<Rightarrow>
         unat P1 < 2 ^ 18 \<and> unat P3 < 2 ^ 20 \<and> ((1 :: 32 word) = 0 \<longrightarrow> P2 = 0))"
proof -
  have a: "(1 :: 32 word) < 3" by simp
  have b: "(3 :: 32 word) \<le> 0xFFFFF" by simp
  have c: "24 \<le> floor_prec binary32" by (simp add: binary32_def)
  from fields_fit [OF a b c, of 15 2048] a b c show ?thesis by simp
qed

text \<open>
  C10. Whenever \<open>setupPLL\<close> returns an error, from a failed check or from a failed bus
  transaction anywhere in its nine writes, the configuration, and so the flag and the
  frequency of both PLLs, is what it was before the call. And when it returns
  \<open>ERROR_NONE\<close>, each of the next nine transactions, the eight register writes and the
  PLL-reset write, was acknowledged, exactly these nine were issued, and the
  configuration is the old one with the selected PLL's flag and frequency stored. So
  the stored state changes only after all nine writes have succeeded.
\<close>

theorem setupPLL_stores_only_after_all_writes:
  "(fst (setupPLL pf pll mult num denom s) \<noteq> ERROR_NONE \<longrightarrow>
      m_si5351Config (snd (setupPLL pf pll mult num denom s)) = m_si5351Config s)
   \<and> (fst (setupPLL pf pll mult num denom s) = ERROR_NONE \<longrightarrow>
      (\<forall>i<9. ack (i2c_dev s) (length (sent (i2c_dev s)) + i))
      \<and> length (sent (i2c_dev (snd (setupPLL pf pll mult num denom s))))
          = length (sent (i2c_dev s)) + 9
      \<and> m_si5351Config (snd (setupPLL pf pll mult num denom s))
          = store_pll pf pll mult num denom (m_si5351Config s))"
proof (intro conjI impI)
  assume "fst (setupPLL pf pll mult num denom s) \<noteq> ERROR_NONE"
  then show "m_si5351Config (snd (setupPLL pf pll mult num denom s)) = m_si5351Config s"
    using kc_setupPLL [of pf pll mult num denom] by (simp add: keeps_cfg_on_error_def)
next
  assume ok: "fst (setupPLL pf pll mult num denom s) = ERROR_NONE"
  have n: "Suc (Suc (Suc (Suc (Suc (Suc (Suc (Suc (Suc 0)))))))) = 9" by simp
  note A = aa_setupPLL [of pf pll mult num denom, unfolded only_after_acks_def n, rule_format, OF ok]
  from A show "\<forall>i<9. ack (i2c_dev s) (length (sent (i2c_dev s)) + i)" by blast
  from A show "length (sent (i2c_dev (snd (setupPLL pf pll mult num denom s))))
          = length (sent (i2c_dev s)) + 9" by blast
  from A show "m_si5351Config (snd (setupPLL pf pll mult num denom s))
          = store_pll pf pll mult num denom (m_si5351Config s)" by blast
qed

theorem setupPLL_stores_only_after_all_writes_witness:
  "fst (setupPLL binary32 SI5351_PLL_B 36 0 1 (ready (bus_failing [8] 0))) = ERROR_I2C_TRANSACTION
   \<and> m_si5351Config (snd (setupPLL binary32 SI5351_PLL_B 36 0 1 (ready (bus_failing [8] 0))))
       = m_si5351Config (ready (bus_failing [8] 0))
   \<and> fst (setupPLL binary32 SI5351_PLL_B 36 0 1 (ready (bus_failing [] 0))) = ERROR_NONE
   \<and> ack (bus_failing [] 0) 0 \<and> ack (bus_failing [] 0) 8
   \<and> length (sent (i2c_dev (snd (setupPLL binary32 SI5351_PLL_B 36 0 1 (ready (bus_failing [] 0))))))
       = 9
   \<and> pllb_configured
        (m_si5351Config (snd (setupPLL binary32 SI5351_PLL_B 36 0 1 (ready (bus_failing [] 0)))))"
proof -
  let ?f = "ready (bus_failing [8] 0)" and ?g = "ready (bus_failing [] 0)"
  have e: "fst (setupPLL binary32 SI5351_PLL_B 36 0 1 ?f) = ERROR_I2C_TRANSACTION"
    by (simp add: setupPLL_def setupPLL_P_def ready_def bus_failing_def ops regs)
  then have ne: "fst (setupPLL binary32 SI5351_PLL_B 36 0 1 ?f) \<noteq> ERROR_NONE"
    by simp
  have ok: "fst (setupPLL binary32 SI5351_PLL_B 36 0 1 ?g) = ERROR_NONE"
    by (simp add: setupPLL_def setupPLL_P_def ready_def bus_failing_def ops regs)
  from setupPLL_stores_only_after_all_writes [of binary32 SI5351_PLL_B 36 0 1 ?f] ne
  have c1: "m_si5351Config (snd (setupPLL binary32 SI5351_PLL_B 36 0 1 ?f)) = m_si5351Config ?f"
    by blast
  from setupPLL_stores_only_after_all_writes [of binary32 SI5351_PLL_B 36 0 1 ?g] ok
  have c2: "\<forall>i<9. ack (i2c_dev ?g) (length (sent (i2c_dev ?g)) + i)"
    and c3: "length (sent (i2c_dev (snd (setupPLL binary32 SI5351_PLL_B 36 0 1 ?g))))
            = length (sent (i2c_dev ?g)) + 9"
    and c4: "m_si5351Config (snd (setupPLL binary32 SI5351_PLL_B 36 0 1 ?g))
            = store_pll binary32 SI5351_PLL_B 36 0 1 (m_si5351Config ?g)"
    by blast+
  have "ack (i2c_dev ?g) (length (sent (i2c_dev ?g)) + 0)"
    and "ack (i2c_dev ?g) (length (sent (i2c_dev ?g)) + 8)"
    using c2 [rule_format, of 0] c2 [rule_format, of 8] by simp_all
  moreover have "sent (bus_failing [] 0) = []"
    by (simp add: bus_failing_def)
  ultimately have d2: "ack (bus_failing [] 0) 0 \<and> ack (bus_failing [] 0) 8"
    by (simp add: ready_def)
  from c3 have d3: "length (sent (i2c_dev (snd (setupPLL binary32 SI5351_PLL_B 36 0 1 ?g)))) = 9"
    by (simp add: ready_def bus_failing_def)
  have d4: "pllb_configured (m_si5351Config (snd (setupPLL binary32 SI5351_PLL_B 36 0 1 ?g)))"
    by (simp only: c4) (simp add: store_pll_def)
  from e c1 ok d2 d3 d4 show ?thesis by blast
qed

end
